theory Spec2Isabelle
  imports Main "HOL-Library.Char_ord" "HOL-Library.List_Lexorder" "HOL-Library.AList"
    "HOL-Library.Multiset"
begin

section \<open>PE Import Analyzer: the extractor, the two renderers and the command line\<close>

text \<open>
  The program is one Python script. It asks LIEF for the import table of a PE file, groups
  the imported functions by DLL, sorts them without regard to case, and writes a text or
  HTML report that annotates the functions from a static catalog.

  Python strings are modelled as \<^typ>\<open>string\<close>; the characters are those of 7-bit ASCII,
  which is what PE import names and the catalog consist of. Dictionaries are association
  lists in insertion order, because the script iterates over them. Exceptions are values
  of the type \<open>exn\<close>, and a function that may raise returns \<open>exn + 'a\<close>.
\<close>

subsection \<open>String primitives of Python used by the script\<close>

text \<open>\<^verbatim>\<open>str.lower\<close> on ASCII: the 26 capital letters are mapped, every other character stays.\<close>

definition lower_char :: "char \<Rightarrow> char" where
  "lower_char c =
     (case map_of (zip ''ABCDEFGHIJKLMNOPQRSTUVWXYZ'' ''abcdefghijklmnopqrstuvwxyz'') c of
        Some l \<Rightarrow> l
      | None \<Rightarrow> c)"

definition lower :: "string \<Rightarrow> string" where
  "lower s = map lower_char s"

text \<open>\<^verbatim>\<open>str.strip()\<close>: the ASCII characters for which \<^verbatim>\<open>str.isspace\<close> holds are removed
  at both ends.\<close>

definition is_space :: "char \<Rightarrow> bool" where
  "is_space c = (c \<in> set [CHR 0x09, CHR 0x0A, CHR 0x0B, CHR 0x0C, CHR 0x0D,
                             CHR 0x1C, CHR 0x1D, CHR 0x1E, CHR 0x1F, CHR 0x20])"

definition strip :: "string \<Rightarrow> string" where
  "strip s = rev (dropWhile is_space (rev (dropWhile is_space s)))"

text \<open>The decimal rendering of a non-negative integer, as an f-string prints it.\<close>

definition digit_char :: "nat \<Rightarrow> char" where
  "digit_char d = ''0123456789'' ! (d mod 10)"

function str_of_nat :: "nat \<Rightarrow> string" where
  "str_of_nat n = (if n < 10 then [digit_char n] else str_of_nat (n div 10) @ [digit_char (n mod 10)])"
  by pat_completeness auto
termination
  by (relation "measure (\<lambda>n. n)") auto

declare str_of_nat.simps [simp del]

text \<open>\<^verbatim>\<open>"\n".join(lines)\<close>.\<close>

fun join_lines :: "string list \<Rightarrow> string" where
  "join_lines [] = []"
| "join_lines [l] = l"
| "join_lines (l # ls) = l @ [CHR 0x0A] @ join_lines ls"

text \<open>\<^verbatim>\<open>html.escape(s)\<close> of the standard library, with its default \<^verbatim>\<open>quote=True\<close>: the
  ampersand, the two angle brackets and both quotation marks are replaced by entities.\<close>

definition html_escape_char :: "char \<Rightarrow> string" where
  "html_escape_char c =
     (if c = CHR ''&'' then ''&amp;''
      else if c = CHR ''<'' then ''&lt;''
      else if c = CHR ''>'' then ''&gt;''
      else if c = CHR 0x22 then ''&quot;''
      else if c = CHR 0x27 then ''&#x27;''
      else [c])"

definition html_escape :: "string \<Rightarrow> string" where
  "html_escape s = concat (map html_escape_char s)"

subsection \<open>The annotation catalog\<close>

type_synonym ('k, 'v) dict = "('k \<times> 'v) list"

record dll_info =
  explanation :: string
  apis :: "(string, string) dict"

definition DEFAULT_EXPLANATION :: string where
  "DEFAULT_EXPLANATION = ''No explanation available. Please refer to official documentation.''"

text \<open>\<^verbatim>\<open>extend_apis(dll_dict, target)\<close> adds the keys \<^verbatim>\<open>placeholder_<i>\<close> for \<open>i\<close> from one more
  than the current number of entries up to \<open>target\<close>. Assigning to a key that exists
  replaces its value in place, which is what \<^const>\<open>AList.update\<close> does.\<close>

definition extend_apis :: "dll_info \<Rightarrow> nat \<Rightarrow> dll_info" where
  "extend_apis dll_dict target =
     (let current = length (apis dll_dict) in
      dll_dict\<lparr>apis :=
        foldl (\<lambda>a i. AList.update (''placeholder_'' @ str_of_nat i) DEFAULT_EXPLANATION a)
          (apis dll_dict) [current + 1 ..< target + 1]\<rparr>)"

text \<open>The dictionary literal of the script, one definition per DLL.\<close>

definition kernel32_dll_apis :: "(string \<times> string) list" where
  "kernel32_dll_apis = [
    (''createfile'',
      ''Creates or opens a file, device, or I/O resource and returns a handle.''),
    (''readfile'',
      ''Reads data from an open file or I/O device into a buffer.''),
    (''writefile'',
      ''Writes data from a buffer to an open file or I/O device.''),
    (''closehandle'',
      ''Closes an open object handle and releases its resources.''),
    (''virtualalloc'',
      ''Reserves or commits a region of pages in the virtual address space.''),
    (''virtualfree'',
      ''Frees or decommits a region of pages in the virtual address space.''),
    (''getprocaddress'',
      ''Retrieves the address of an exported function or variable from a DLL.''),
    (''loadlibrary'',
      ''Loads the specified DLL into the process's address space.''),
    (''createthread'',
      ''Creates a new thread within the calling process.''),
    (''createprocess'',
      ''Creates a new process and its primary thread.''),
    (''openprocess'',
      ''Opens an existing process with specified access rights.''),
    (''terminateprocess'',
      ''Forcibly terminates a specified process and its threads.''),
    (''suspendthread'',
      ''Suspends the execution of a specified thread.''),
    (''resumethread'',
      ''Resumes a suspended thread.''),
    (''waitforsingleobject'',
      ''Waits until a specified object is in the signaled state.''),
    (''getlasterror'',
      ''Retrieves the calling thread's last error code.''),
    (''getmodulehandle'',
      ''Retrieves a handle to a module that is already loaded.''),
    (''getcurrentprocess'',
      ''Returns a pseudo-handle for the current process.''),
    (''getcurrentthread'',
      ''Returns a pseudo-handle for the current thread.''),
    (''exitprocess'',
      ''Terminates the current process and all its threads.''),
    (''sleep'',
      ''Suspends the execution of the current thread for a specified time interval.''),
    (''findfirstfile'',
      ''Initiates a search for files and directories matching a specified pattern.''),
    (''findnextfile'',
      ''Continues a file search from a previous FindFirstFile call.''),
    (''findclose'',
      ''Closes the search handle opened by FindFirstFile.''),
    (''deletefile'',
      ''Deletes a file from the file system.''),
    (''copyfile'',
      ''Copies an existing file to a new file.''),
    (''movefile'',
      ''Moves or renames a file or directory.''),
    (''createmutex'',
      ''Creates or opens a mutex object for synchronizing access to shared resources.''),
    (''waitformultipleobjects'',
      ''Waits until one or more specified objects are in the signaled state.''),
    (''createevent'',
      ''Creates or opens an event object for synchronization purposes.''),
    (''setevent'',
      ''Sets the specified event object to the signaled state.''),
    (''resetevent'',
      ''Resets the specified event object to the non-signaled state.''),
    (''createfilemapping'',
      ''Creates a file mapping object for shared memory between processes.''),
    (''mapviewoffile'',
      ''Maps a view of a file mapping into the address space of the calling process.''),
    (''unmapviewoffile'',
      ''Unmaps a mapped view of a file from the process's address space.''),
    (''getsystemtime'',
      ''Retrieves the current system date and time in UTC.''),
    (''setsystemtime'',
      ''Sets the system time and date, requiring appropriate privileges.''),
    (''queryperformancecounter'',
      ''Retrieves the current value of the high-resolution performance counter.''),
    (''queryperformancefrequency'',
      ''Retrieves the frequency of the high-resolution performance counter.''),
    (''createnamedpipe'',
      ''Creates an instance of a named pipe for inter-process communication.''),
    (''connectnamedpipe'',
      ''Connects the server end of a named pipe to a client process.''),
    (''disconnectnamedpipe'',
      ''Disconnects the server end of a named pipe from a client.''),
    (''exitthread'',
      ''Terminates the calling thread and returns an exit code.''),
    (''beep'',
      ''Generates simple tones on the speaker.''),
    (''gettickcount'',
      ''Retrieves the number of milliseconds that have elapsed since the system was started.''),
    (''globalalloc'',
      ''Allocates memory from the global heap.''),
    (''globalfree'',
      ''Frees memory allocated from the global heap.''),
    (''heapalloc'',
      ''Allocates a block of memory from a specified heap.''),
    (''heapfree'',
      ''Frees a memory block allocated from a specified heap.''),
    (''getmodulefilename'',
      ''Retrieves the fully qualified path for the file that contains the specified module.''),
    (''getfilesize'',
      ''Retrieves the size of the specified file in bytes.''),
    (''setfilepointer'',
      ''Moves the file pointer of an open file to a specified position.'')]"

definition user32_dll_apis :: "(string \<times> string) list" where
  "user32_dll_apis = [
    (''createwindowex'',
      ''Creates an overlapped, pop-up, or child window with extended styles.''),
    (''defwindowproc'',
      ''Provides default processing for window messages not handled by the window procedure.''),
    (''dispatchmessage'',
      ''Dispatches a message to a window procedure.''),
    (''messagebox'',
      ''Displays a modal dialog box with a message, icons, and buttons.''),
    (''getmessage'',
      ''Retrieves a message from the calling thread's message queue.''),
    (''translatemessage'',
      ''Translates virtual-key messages into character messages.''),
    (''destroywindow'',
      ''Destroys the specified window and releases its resources.''),
    (''getclientrect'',
      ''Retrieves the coordinates of a window's client area.''),
    (''screentoclient'',
      ''Converts screen coordinates to client-area coordinates for a window.''),
    (''clienttoscreen'',
      ''Converts client-area coordinates to screen coordinates for a window.''),
    (''enablewindow'',
      ''Enables or disables input to a specified window.''),
    (''setfocus'',
      ''Sets the keyboard focus to a specified window.''),
    (''getfocus'',
      ''Retrieves the handle to the window that has the keyboard focus.''),
    (''postmessage'',
      ''Posts a message to the message queue of a specified window.''),
    (''sendmessage'',
      ''Sends a message to a window and waits for it to be processed.''),
    (''setforegroundwindow'',
      ''Brings the specified window to the foreground.''),
    (''showwindow'',
      ''Sets the show state (minimized, maximized, etc.) of a window.''),
    (''updatewindow'',
      ''Forces a window to repaint immediately.''),
    (''getwindowtext'',
      ''Retrieves the title bar text of a window.''),
    (''setwindowtext'',
      ''Changes the title bar text of a window.''),
    (''adjustwindowrect'',
      ''Calculates the required window rectangle to accommodate a desired client area, considering window styles.''),
    (''adjustwindowrectex'',
      ''Calculates the window rectangle size including extended styles for accurate layout.''),
    (''getsystemmetrics'',
      ''Retrieves various system metrics and configuration settings, such as screen dimensions.''),
    (''setcursor'',
      ''Sets the current cursor shape to the specified cursor handle.''),
    (''loadcursor'',
      ''Loads the specified cursor resource from the executable or a DLL.''),
    (''setcursorpos'',
      ''Moves the cursor to the specified screen coordinates.''),
    (''getcursorpos'',
      ''Retrieves the current position of the cursor on the screen.''),
    (''registerclass'',
      ''Registers a window class for subsequent window creation.''),
    (''unregisterclass'',
      ''Unregisters a previously registered window class, freeing associated resources.''),
    (''setwindowpos'',
      ''Changes the size, position, and Z order of a window.''),
    (''getwindow'',
      ''Retrieves a handle to a window with a specified relationship to a given window.''),
    (''iswindow'',
      ''Determines whether the specified window handle identifies an existing window.''),
    (''setwindowplacement'',
      ''Sets the show state and placement (position and size) of a window.''),
    (''getwindowplacement'',
      ''Retrieves the current show state and window placement information of a window.''),
    (''drawicon'',
      ''Draws an icon or cursor into the specified device context.''),
    (''drawtext'',
      ''Draws formatted text in a specified rectangle using the selected font.''),
    (''peekmessage'',
      ''Checks the message queue for a message without removing it, optionally retrieving the message.''),
    (''registerhotkey'',
      ''Registers a system-wide hot key that can trigger specific actions when pressed.''),
    (''unregisterhotkey'',
      ''Unregisters a system-wide hot key, freeing it for other uses.''),
    (''getdc'',
      ''Retrieves a handle to a device context (DC) for the client area of a specified window.''),
    (''releasedc'',
      ''Releases a device context (DC), freeing it for use by other applications.''),
    (''loadicon'',
      ''Loads the specified icon resource from the executable or a DLL.''),
    (''setwindowlong'',
      ''Changes an attribute of the specified window (e.g., style or window procedure pointer).''),
    (''getwindowlong'',
      ''Retrieves information about the specified window, such as styles or extended attributes.''),
    (''flashwindow'',
      ''Flashes the specified window to draw the user's attention.''),
    (''enddialog'',
      ''Ends a modal dialog box, returning control to the main application.''),
    (''getsystemmenu'',
      ''Retrieves a handle to the window menu for the specified window.''),
    (''trackpopupmenu'',
      ''Displays a shortcut menu at the specified location and tracks the selection of items.''),
    (''setlayeredwindowattributes'',
      ''Sets the opacity and transparency color key of a layered window.''),
    (''drawframecontrol'',
      ''Draws a frame control of a specified type and style.'')]"

definition advapi32_dll_apis :: "(string \<times> string) list" where
  "advapi32_dll_apis = [
    (''OpenSCManagerA'',
      ''Opens a handle to the Service Control Manager database (ANSI).''),
    (''OpenServiceA'',
      ''Opens an existing service from the SCM database (ANSI).''),
    (''RegCloseKey'',
      ''Closes a handle to a registry key.''),
    (''RegOpenKeyA'',
      ''Opens a registry key (ANSI, basic access).''),
    (''RegOpenKeyExA'',
      ''Opens a registry key with extended options (ANSI).''),
    (''RegQueryValueExA'',
      ''Retrieves the type and data of a registry value (ANSI).''),
    (''regopenkeyex'',
      ''Opens a registry key with the desired access rights.''),
    (''regqueryvalueex'',
      ''Retrieves the type and data for a specified registry value.''),
    (''regsetvalueex'',
      ''Sets the data for a specified registry value.''),
    (''regenumkeyex'',
      ''Enumerates subkeys of an open registry key.''),
    (''regenumvalue'',
      ''Enumerates the values of an open registry key.''),
    (''regclosekey'',
      ''Closes a handle to a registry key.''),
    (''regcreatekeyex'',
      ''Creates or opens a registry key with specified options.''),
    (''regdeletekey'',
      ''Deletes a specified registry key.''),
    (''regdeletevalue'',
      ''Deletes a value from a registry key.''),
    (''regqueryinfokey'',
      ''Retrieves information about a registry key.''),
    (''lookupprivilegevalue'',
      ''Retrieves the LUID for a specified privilege.''),
    (''adjusttokenprivileges'',
      ''Enables or disables privileges in an access token.''),
    (''openprocesstoken'',
      ''Opens the access token associated with a process.''),
    (''duplicatehandle'',
      ''Duplicates an object handle for use in another process.''),
    (''regloadkey'',
      ''Loads registry data from a file into a registry key.''),
    (''regunloadkey'',
      ''Unloads registry data from a registry key.''),
    (''startservice'',
      ''Starts a service.''),
    (''openservice'',
      ''Opens an existing service.''),
    (''queryserviceconfig'',
      ''Retrieves configuration parameters for a service.''),
    (''changeserviceconfig'',
      ''Modifies the configuration parameters of a service.''),
    (''impersonateloggedonuser'',
      ''Impersonates a logged-on user, allowing a thread to assume the user's security context.''),
    (''reverttoself'',
      ''Terminates the impersonation of a client and reverts the thread's security context to the process.''),
    (''openscmanager'',
      ''Opens a handle to the service control manager on the specified computer.''),
    (''createservice'',
      ''Creates a service object and adds it to the service control manager database.''),
    (''deleteservice'',
      ''Marks a service for deletion from the service control manager database.''),
    (''controlservice'',
      ''Sends a control code to a service to perform a specific action.''),
    (''closeservicehandle'',
      ''Closes a handle to a service control manager or service object.''),
    (''queryservicestatus'',
      ''Retrieves the current status of a specified service.''),
    (''queryservicestatusex'',
      ''Retrieves extended status information for a specified service.''),
    (''startservicectrldispatcher'',
      ''Connects the main thread of a service process to the service control manager for message handling.''),
    (''setservicestatus'',
      ''Sets the current status of a service, reporting its state to the service control manager.''),
    (''getsecurityinfo'',
      ''Retrieves security information about a specified object, such as a registry key or service.''),
    (''setsecurityinfo'',
      ''Sets security information for a specified object, modifying its access control list.''),
    (''convertstringsecuritydescriptortosecuritydescriptor'',
      ''Converts a string-format security descriptor into a valid security descriptor.''),
    (''gettokeninformation'',
      ''Retrieves specified information about an access token.''),
    (''settokeninformation'',
      ''Sets various types of information for an access token.''),
    (''auditaccountpolicychange'',
      ''Audits changes to account policies.''),
    (''auditprivilegeuse'',
      ''Audits the use of privileges.''),
    (''backupregistryfile'',
      ''Backs up a specified registry key to a file.''),
    (''restoreregistryfile'',
      ''Restores a registry key from a backup file.''),
    (''encryptfile'',
      ''Encrypts a file or directory.''),
    (''decryptfile'',
      ''Decrypts a file or directory.''),
    (''openbackupeventlog'',
      ''Opens a backup copy of the event log for reading.''),
    (''cleareventlog'',
      ''Clears the specified event log.''),
    (''regsavekeyex'',
      ''Saves the specified registry key to a file, including security settings.''),
    (''regrestorekey'',
      ''Restores a registry key from a file.''),
    (''regloadappkey'',
      ''Loads a registry hive from a file into a specified key.''),
    (''regunloadappkey'',
      ''Unloads a previously loaded registry hive.''),
    (''setnamedsecurityinfo'',
      ''Sets security information for a specified object by name.''),
    (''getnamedsecurityinfo'',
      ''Retrieves security information for a specified object by name.''),
    (''RegConnectRegistry'',
      ''Establishes a connection to a remote registry.''),
    (''RegOpenUserClassesRoot'',
      ''Opens the user classes registry key for a specified user.''),
    (''RegOverridePredefKey'',
      ''Overrides a predefined registry key with a specified key.''),
    (''RegQueryMultipleValues'',
      ''Retrieves values for multiple registry keys in one call.''),
    (''RegSetKeySecurity'',
      ''Sets the security of a registry key.''),
    (''RegQueryKeySecurity'',
      ''Retrieves the security of a registry key.''),
    (''RegSaveKey'',
      ''Saves the specified registry key and its subkeys to a file.''),
    (''RegConnectRegistryEx'',
      ''Establishes an extended connection to a remote registry.''),
    (''OpenSCManagerEx'',
      ''Opens a handle to the service control manager with extended access.''),
    (''ChangeServiceConfig2'',
      ''Changes additional configuration parameters of a service.''),
    (''QueryServiceConfig2'',
      ''Retrieves additional configuration parameters of a service.''),
    (''StartServiceCtrlDispatcher'',
      ''Connects the main thread of a service process to the service control manager.''),
    (''RegisterServiceCtrlHandlerEx'',
      ''Registers a service control handler that can receive extended control codes.''),
    (''GetServiceKeyName'',
      ''Retrieves the service key name for a specified service.''),
    (''GetServiceDisplayName'',
      ''Retrieves the display name for a specified service.''),
    (''CreateBoundaryDescriptor'',
      ''Creates a boundary descriptor for security isolation.''),
    (''AddSIDToBoundaryDescriptor'',
      ''Adds a SID to a boundary descriptor.''),
    (''DeleteBoundaryDescriptor'',
      ''Deletes a boundary descriptor and frees associated resources.''),
    (''CreateRestrictedToken'',
      ''Creates a restricted access token with reduced privileges.''),
    (''IsWellKnownSid'',
      ''Determines if a SID is a well-known SID.''),
    (''GetSecurityDescriptorControl'',
      ''Retrieves control bits from a security descriptor.''),
    (''SetSecurityDescriptorControl'',
      ''Sets control bits in a security descriptor.''),
    (''InitializeSecurityDescriptor'',
      ''Initializes a new security descriptor.''),
    (''SetSecurityDescriptorDacl'',
      ''Sets the discretionary ACL (DACL) in a security descriptor.''),
    (''GetSecurityDescriptorDacl'',
      ''Retrieves the discretionary ACL from a security descriptor.''),
    (''SetSecurityDescriptorSacl'',
      ''Sets the system ACL (SACL) in a security descriptor.''),
    (''GetSecurityDescriptorSacl'',
      ''Retrieves the system ACL from a security descriptor.''),
    (''SetSecurityDescriptorOwner'',
      ''Sets the owner in a security descriptor.''),
    (''GetSecurityDescriptorOwner'',
      ''Retrieves the owner from a security descriptor.''),
    (''SetSecurityDescriptorGroup'',
      ''Sets the primary group in a security descriptor.''),
    (''GetSecurityDescriptorGroup'',
      ''Retrieves the primary group from a security descriptor.''),
    (''ConvertSecurityDescriptorToStringSecurityDescriptor'',
      ''Converts a security descriptor to its string representation.''),
    (''ConvertStringSecurityDescriptorToSecurityDescriptor'',
      ''Converts a string-format security descriptor to a binary security descriptor.''),
    (''QuerySecurityAccessMask'',
      ''Retrieves the access mask for a specified object.''),
    (''GetEffectiveRightsFromAcl'',
      ''Retrieves the effective rights for a trustee from an ACL.''),
    (''SetEntriesInAcl'',
      ''Creates a new ACL by merging explicit access entries with an existing ACL.''),
    (''GetAuditedPermissionsFromAcl'',
      ''Retrieves the audited permissions for a trustee from an ACL.''),
    (''BuildExplicitAccessWithName'',
      ''Initializes an EXPLICIT_ACCESS structure with specified values.''),
    (''GetExplicitEntriesFromAcl'',
      ''Retrieves explicit access control entries from an ACL.''),
    (''GetSecurityDescriptorLength'',
      ''Retrieves the length of a security descriptor.''),
    (''GetFileSecurity'',
      ''Retrieves security information about a file.''),
    (''SetFileSecurity'',
      ''Sets security information for a file.''),
    (''ImpersonateSelf'',
      ''Impersonates the calling process's security context.''),
    (''RevertToSelf'',
      ''Reverts to the process's original security context.''),
    (''OpenThreadToken'',
      ''Opens the access token associated with a thread.''),
    (''DuplicateToken'',
      ''Duplicates an access token.''),
    (''DuplicateTokenEx'',
      ''Duplicates an access token with extended rights.''),
    (''ConvertSidToStringSid'',
      ''Converts a binary SID to its string representation.''),
    (''ConvertStringSidToSid'',
      ''Converts a string SID to a binary SID.''),
    (''AllocateAndInitializeSid'',
      ''Allocates and initializes a SID with a specified identifier authority.'')]"

definition ntdll_dll_apis :: "(string \<times> string) list" where
  "ntdll_dll_apis = [
    (''ntcreatefile'',
      ''Creates or opens a file using NT system calls.''),
    (''ntopenfile'',
      ''Opens a file using NT system calls.''),
    (''ntreadfile'',
      ''Reads data from a file using NT system calls.''),
    (''ntwritefile'',
      ''Writes data to a file using NT system calls.''),
    (''ntclose'',
      ''Closes a handle using NT system calls.''),
    (''ntqueryinformationprocess'',
      ''Retrieves process information using NT system calls.''),
    (''ntquerysysteminformation'',
      ''Retrieves system information using NT system calls.''),
    (''ntqueryinformationfile'',
      ''Retrieves file information using NT system calls.''),
    (''ntsetinformationfile'',
      ''Sets file information using NT system calls.''),
    (''ntallocatevirtualmemory'',
      ''Allocates virtual memory using NT system calls.''),
    (''ntfreevirtualmemory'',
      ''Frees virtual memory using NT system calls.''),
    (''ntdelayexecution'',
      ''Delays execution of the current thread using NT system calls.''),
    (''ntqueryobject'',
      ''Retrieves information about an NT object.''),
    (''ntquerydirectoryfile'',
      ''Enumerates directory entries using NT system calls.''),
    (''ntcreatethread'',
      ''Creates a thread using NT system calls.''),
    (''ntexitprocess'',
      ''Terminates a process using NT system calls.''),
    (''ntterminateprocess'',
      ''Terminates a process using NT system calls.''),
    (''ntdispatchrequest'',
      ''Dispatches an NT system call request.''),
    (''ntdoioctl'',
      ''Performs an I/O control operation using NT system calls.''),
    (''ntunwind'',
      ''Unwinds the stack during exception handling using NT system calls.''),
    (''ntqueryinformationthread'',
      ''Retrieves information about a thread using NT system calls.''),
    (''ntsetinformationthread'',
      ''Sets information for a thread using NT system calls.''),
    (''ntreadvirtualmemory'',
      ''Reads memory from a process's virtual address space using NT system calls.''),
    (''ntwritevirtualmemory'',
      ''Writes memory to a process's virtual address space using NT system calls.''),
    (''ntopenprocess'',
      ''Opens a process using NT system calls.''),
    (''ntquerysystemenvironmentvalue'',
      ''Retrieves environment variable values from the system.''),
    (''ntsetsystemenvironmentvalue'',
      ''Sets system environment variable values using NT system calls.''),
    (''ntqueryperformancecounter'',
      ''Retrieves performance counter information using NT system calls.''),
    (''ntflushinstructioncache'',
      ''Flushes the instruction cache of a process.''),
    (''ntcontinue'',
      ''Resumes execution of a thread interrupted by an exception.''),
    (''ntterminatethread'',
      ''Terminates a thread using NT system calls.''),
    (''ntopenthread'',
      ''Opens a handle to a thread using NT system calls.''),
    (''ntqueryvirtualmemory'',
      ''Retrieves information about a region of virtual memory.''),
    (''ntprotectvirtualmemory'',
      ''Changes the protection on a region of virtual memory.''),
    (''ntcreatesection'',
      ''Creates a section object for shared memory.''),
    (''ntmapviewofsection'',
      ''Maps a view of a section into a process's virtual address space.''),
    (''ntunmapviewofsection'',
      ''Unmaps a previously mapped view of a section.''),
    (''ntqueryattributesfile'',
      ''Retrieves attributes of a file using NT system calls.''),
    (''ntsetinformationobject'',
      ''Sets information for an NT object.''),
    (''ntquerysecurityobject'',
      ''Retrieves security information for an NT object.''),
    (''ntsetsecurityobject'',
      ''Sets security information for an NT object.''),
    (''ntopendirectoryobject'',
      ''Opens a handle to a directory object in the NT namespace.''),
    (''ntquerydirectoryobject'',
      ''Enumerates objects in an NT directory.''),
    (''ntcloseobject'',
      ''Closes a handle to an NT object.''),
    (''ntopenmutant'',
      ''Opens a mutant (mutex) object using NT system calls.''),
    (''ntreleasemutant'',
      ''Releases a mutant (mutex) object using NT system calls.''),
    (''ntopensection'',
      ''Opens an existing section object.''),
    (''ntquerysection'',
      ''Retrieves information about a section object.''),
    (''ntsetinformationsection'',
      ''Sets information for a section object.''),
    (''ntcreateevent'',
      ''Creates an event object using NT system calls.'')]"

definition ws2_32_dll_apis :: "(string \<times> string) list" where
  "ws2_32_dll_apis = [
    (''socket'',
      ''Creates a socket for network communications.''),
    (''bind'',
      ''Associates a local address with a socket.''),
    (''listen'',
      ''Places a socket in a state to accept incoming connections.''),
    (''accept'',
      ''Accepts an incoming connection on a listening socket.''),
    (''connect'',
      ''Establishes a connection to a remote socket.''),
    (''send'',
      ''Sends data over a connected socket.''),
    (''recv'',
      ''Receives data from a connected socket.''),
    (''closesocket'',
      ''Closes a socket.''),
    (''ioctlsocket'',
      ''Sets or retrieves the I/O mode of a socket.''),
    (''shutdown'',
      ''Disables sends or receives on a socket.''),
    (''wsastartup'',
      ''Initializes the Winsock library.''),
    (''wsacleanup'',
      ''Terminates the use of the Winsock library.''),
    (''gethostbyname'',
      ''Retrieves host information based on a host name.''),
    (''gethostbyaddr'',
      ''Retrieves host information based on an IP address.''),
    (''select'',
      ''Monitors multiple sockets for readiness to perform I/O.''),
    (''wsasend'',
      ''Sends data over a socket with additional options.''),
    (''wsarecv'',
      ''Receives data over a socket with additional options.''),
    (''wsasendto'',
      ''Sends data to a specific destination over a socket.''),
    (''wsarecvfrom'',
      ''Receives data from a specific source on a socket.''),
    (''wsawaitformultipleevents'',
      ''Waits for multiple Winsock events to be signaled.''),
    (''getaddrinfo'',
      ''Resolves a host name to an address, supporting both IPv4 and IPv6.''),
    (''freeaddrinfo'',
      ''Frees memory allocated for address information by getaddrinfo.''),
    (''getnameinfo'',
      ''Translates a socket address to a corresponding host and service.''),
    (''WSAAsyncSelect'',
      ''Requests that a socket send a message when an event occurs.''),
    (''WSAEventSelect'',
      ''Specifies an event object to be associated with a socket.''),
    (''WSACreateEvent'',
      ''Creates a new event object for use with Winsock.''),
    (''WSASetEvent'',
      ''Sets the specified event object to the signaled state.''),
    (''WSACloseEvent'',
      ''Closes a Winsock event object.''),
    (''WSAWaitForMultipleEvents'',
      ''Waits for one or more event objects to be signaled.''),
    (''WSAEnumNetworkEvents'',
      ''Enumerates network events that have occurred on a socket.''),
    (''WSAGetLastError'',
      ''Retrieves the error status for the last Winsock operation.''),
    (''WSAInstallServiceClass'',
      ''Installs a service class into the Winsock catalog.''),
    (''WSARemoveServiceClass'',
      ''Removes a service class from the Winsock catalog.''),
    (''WSAGetServiceClassInfo'',
      ''Retrieves information about a Winsock service class.''),
    (''WSAEnumProtocols'',
      ''Enumerates the transport protocols available on the system.''),
    (''WSASetLastError'',
      ''Sets the error status for the calling thread (rarely used).''),
    (''WSAGetOverlappedResult'',
      ''Retrieves the results of an overlapped operation on a socket.''),
    (''WSARecvDisconnect'',
      ''Receives a disconnect notification on a connection-oriented socket.''),
    (''WSASendDisconnect'',
      ''Sends a disconnect notification on a connection-oriented socket.''),
    (''WSAConnect'',
      ''Initiates a connection on a socket with additional parameters.''),
    (''WSACloseSocket'',
      ''Alternative function to closesocket.''),
    (''WSAIoctl'',
      ''Controls or retrieves the configuration of a socket.''),
    (''WSAAsyncGetHostByName'',
      ''Requests host name resolution asynchronously.''),
    (''WSAAsyncGetProtoByName'',
      ''Requests protocol information asynchronously.''),
    (''WSAAsyncGetServByName'',
      ''Requests service information asynchronously.''),
    (''WSAStartupEx'',
      ''Extended startup function for Winsock.''),
    (''WSARecvMsg'',
      ''Receives a message and associated control information on a socket.''),
    (''WSASendMsg'',
      ''Sends a message and associated control information on a socket.''),
    (''WSARecvEx'',
      ''Receives data on a socket using an extended method.'')]"

definition wininet_dll_apis :: "(string \<times> string) list" where
  "wininet_dll_apis = [
    (''httpaddrequestheadersa'',
      ''Adds extra HTTP request headers to an HTTP request handle.''),
    (''httpendrequesta'',
      ''Ends an HTTP request initiated by HttpSendRequestEx.''),
    (''httpopenrequesta'',
      ''Creates an HTTP request handle for a specified URL and method.''),
    (''httpqueryinfoa'',
      ''Retrieves HTTP response headers or status information.''),
    (''httpsendrequesta'',
      ''Sends the HTTP request and begins receiving the response.''),
    (''httpsendrequestexa'',
      ''Sends an extended HTTP request with additional control options.''),
    (''internetclosehandle'',
      ''Closes an Internet session or resource handle.''),
    (''internetconnecta'',
      ''Establishes a connection to an FTP, Gopher, or HTTP server.''),
    (''internetcrackurla'',
      ''Breaks a URL into its component parts.''),
    (''interneterrordlg'',
      ''Displays an error dialog for Internet-related errors.''),
    (''internetgetconnectedstate'',
      ''Determines the connection state of the local system.''),
    (''internetgetconnectedstateexa'',
      ''Retrieves extended connection state information.''),
    (''internetopena'',
      ''Initializes WinINet and returns a session handle.''),
    (''internetqueryoptiona'',
      ''Retrieves an option value associated with an Internet handle.''),
    (''internetreadfile'',
      ''Reads data from an Internet resource into a buffer.''),
    (''internetsetoptiona'',
      ''Sets an option value for an Internet handle.''),
    (''internetsetstatuscallbacka'',
      ''Registers a callback for Internet status notifications.''),
    (''internetwritefile'',
      ''Writes data to an Internet resource over an established connection.''),
    (''internetopenurl'',
      ''Opens a URL and returns an Internet handle.''),
    (''internetgetcookie'',
      ''Retrieves cookie data associated with a URL.''),
    (''internetcombineurl'',
      ''Combines a base URL and a relative URL into a complete URL.''),
    (''internetqueryoptionw'',
      ''Retrieves an option value (Unicode) for an Internet handle.''),
    (''internetsetoptionw'',
      ''Sets an option value (Unicode) for an Internet handle.''),
    (''internetopenurlw'',
      ''Opens a URL and returns an Internet handle (Unicode).''),
    (''ftpconnect'',
      ''Establishes an FTP session with a server.''),
    (''ftpcwd'',
      ''Changes the current directory on an FTP server.''),
    (''ftplistdirectory'',
      ''Retrieves a directory listing from an FTP server.''),
    (''ftpretr'',
      ''Retrieves a file from an FTP server.''),
    (''ftpput'',
      ''Uploads a file to an FTP server.''),
    (''gopherconnect'',
      ''Establishes a Gopher session with a server.''),
    (''gophergetattribute'',
      ''Retrieves attributes from a Gopher server.''),
    (''gopherreadfile'',
      ''Reads a file from a Gopher server.''),
    (''httpqueryinfow'',
      ''Retrieves HTTP response headers or status information (Unicode).''),
    (''httpopenrequestw'',
      ''Creates an HTTP request handle (Unicode).''),
    (''httpsendrequestw'',
      ''Sends an HTTP request (Unicode).''),
    (''httpaddrequestheadersw'',
      ''Adds HTTP request headers (Unicode).''),
    (''ftpgetfile'',
      ''Downloads a file from an FTP server.''),
    (''ftpputfile'',
      ''Uploads a file to an FTP server.''),
    (''internetquerydataavailable'',
      ''Determines the amount of data available to read on an Internet handle.''),
    (''internetreadfileex'',
      ''Extended version of InternetReadFile with additional options.''),
    (''internetwritefileex'',
      ''Extended version of InternetWriteFile with additional options.''),
    (''internetgetlastresponseinfo'',
      ''Retrieves extended error information for Internet functions.''),
    (''internetshowsecurityinfo'',
      ''Displays security information for an Internet handle.''),
    (''internetqueryoptionex'',
      ''Retrieves an extended option value for an Internet handle.''),
    (''internetsetoptionex'',
      ''Sets an extended option value for an Internet handle.''),
    (''internetcrackurlw'',
      ''Breaks a URL into parts (Unicode).''),
    (''internetcombineurlw'',
      ''Combines URLs (Unicode).''),
    (''internetgetcookieex'',
      ''Retrieves cookie data with extended options.''),
    (''internetconnectw'',
      ''Establishes a connection (Unicode).''),
    (''interneterrordlgex'',
      ''Displays an error dialog with extended options.'')]"

definition ole32_dll_apis :: "(string \<times> string) list" where
  "ole32_dll_apis = [
    (''oleinitialize'',
      ''Initializes the OLE library for use by the calling process.''),
    (''oleuninitialize'',
      ''Terminates the use of the OLE library on the current thread.''),
    (''createstreamonhglobal'',
      ''Creates a stream object using an HGLOBAL memory handle.''),
    (''stgcreatedocfile'',
      ''Creates and opens a compound file for structured storage.''),
    (''stgopenstorage'',
      ''Opens an existing compound file for structured storage.''),
    (''dodragdrop'',
      ''Initiates a drag-and-drop operation.''),
    (''olegetclipboard'',
      ''Retrieves the clipboard object for OLE operations.''),
    (''olesetclipboard'',
      ''Places an object on the clipboard for OLE operations.''),
    (''oleflushclipboard'',
      ''Clears and flushes the OLE clipboard.''),
    (''comarshalinterface'',
      ''Marshals a COM interface pointer into a stream.''),
    (''coumarshalinterface'',
      ''Unmarshals a COM interface pointer from a stream.''),
    (''olecreateinstance'',
      ''Creates a new instance of a COM object.''),
    (''olebuildlink'',
      ''Builds an OLE link to a COM object.''),
    (''oledllregisterserver'',
      ''Registers the COM server (DLL) with the system.''),
    (''oledllunregisterserver'',
      ''Unregisters the COM server (DLL) from the system.''),
    (''olerelease'',
      ''Releases a COM object and its associated resources.''),
    (''olequerylink'',
      ''Queries an OLE link object for status information.''),
    (''oleupdate'',
      ''Updates an OLE link object.''),
    (''oleconnect'',
      ''Connects an OLE object to its server.''),
    (''oledisconnect'',
      ''Disconnects an OLE object from its server.''),
    (''oleshowobject'',
      ''Displays an OLE object in its container.''),
    (''oleexec'',
      ''Executes an OLE object.''),
    (''oleobjectinvoke'',
      ''Invokes a method on an OLE object.''),
    (''oleobjectquery'',
      ''Queries an OLE object for its interfaces.''),
    (''oleobjectdraw'',
      ''Draws an OLE object.''),
    (''oleobjectsetclientsite'',
      ''Associates an OLE object with its container's client site.''),
    (''oleobjectgetclientsite'',
      ''Retrieves the client site associated with an OLE object.''),
    (''oleobjectdoverb'',
      ''Performs a default action (verb) on an OLE object.''),
    (''oleobjectupdate'',
      ''Updates the display of an OLE object.''),
    (''oleobjectrelease'',
      ''Releases an OLE object and its resources.''),
    (''oleobjectclose'',
      ''Closes an OLE object, terminating its connection to its server.''),
    (''oleobjectcopy'',
      ''Copies an OLE object.''),
    (''oleobjectpaste'',
      ''Pastes an OLE object.''),
    (''oleobjectconvert'',
      ''Converts an OLE object to a different format.''),
    (''oleobjectdelete'',
      ''Deletes an OLE object.''),
    (''oleobjectinsert'',
      ''Inserts an OLE object into a container.''),
    (''oleobjectgetdata'',
      ''Retrieves data from an OLE object.''),
    (''oleobjectsetdata'',
      ''Sets data for an OLE object.''),
    (''oleobjectqueryprotocol'',
      ''Queries the communication protocol of an OLE object.''),
    (''oleobjectadvise'',
      ''Advises an OLE object of changes in data or status.''),
    (''oleobjectunadvise'',
      ''Removes an advisory connection from an OLE object.''),
    (''oleobjectenum'',
      ''Enumerates OLE objects in a container.''),
    (''oleobjectgetmoniker'',
      ''Retrieves the moniker associated with an OLE object.''),
    (''oleobjectbind'',
      ''Binds an OLE object to its display or data source.''),
    (''oleobjectlock'',
      ''Locks an OLE object to prevent modifications.''),
    (''oleobjectunlock'',
      ''Unlocks a previously locked OLE object.''),
    (''oleobjectsethostnames'',
      ''Sets the host names for an OLE object.''),
    (''oleobjectgethostnames'',
      ''Retrieves the host names for an OLE object.''),
    (''oleobjectinitialize'',
      ''Initializes an OLE object for use.''),
    (''oleobjectfinalize'',
      ''Finalizes an OLE object, cleaning up resources.'')]"

definition oleaut32_dll_apis :: "(string \<times> string) list" where
  "oleaut32_dll_apis = [
    (''variantclear'',
      ''Clears the contents of a VARIANT structure.''),
    (''variantcopy'',
      ''Copies the contents of one VARIANT to another.''),
    (''sysallocstring'',
      ''Allocates a new BSTR from a given string.''),
    (''sysfreestring'',
      ''Frees a BSTR allocated with SysAllocString.''),
    (''bstrlength'',
      ''Retrieves the length of a BSTR string.''),
    (''safearrayaccessdata'',
      ''Locks a SAFEARRAY and returns a pointer to its data.''),
    (''safearrayunaccessdata'',
      ''Unlocks a SAFEARRAY after data access.''),
    (''dispgetids'',
      ''Retrieves the dispatch identifiers for COM object members.''),
    (''dispinvoke'',
      ''Invokes a method or property on a COM object using IDispatch.''),
    (''variantchangetype'',
      ''Converts a VARIANT to a specified type.''),
    (''sysallocstringlen'',
      ''Allocates a BSTR with a specified length.''),
    (''safearraydestroy'',
      ''Destroys a SAFEARRAY and frees its memory.''),
    (''safearraygetubound'',
      ''Retrieves the upper bound of a SAFEARRAY dimension.''),
    (''safearraygetlbound'',
      ''Retrieves the lower bound of a SAFEARRAY dimension.''),
    (''safearraygetelement'',
      ''Retrieves an element from a SAFEARRAY.''),
    (''safearrayputelement'',
      ''Sets an element in a SAFEARRAY.''),
    (''variantinit'',
      ''Initializes a VARIANT to VT_EMPTY.''),
    (''variantcopyindirect'',
      ''Copies a VARIANT indirectly, allocating memory as needed.''),
    (''safearraycreate'',
      ''Creates a SAFEARRAY with specified bounds and type.''),
    (''safearraylock'',
      ''Locks a SAFEARRAY for thread-safe access.''),
    (''safearrayunlock'',
      ''Unlocks a previously locked SAFEARRAY.''),
    (''varianttoarray'',
      ''Converts a VARIANT to a SAFEARRAY if possible.''),
    (''arraytovariant'',
      ''Converts a SAFEARRAY to a VARIANT.''),
    (''bstralloc'',
      ''Allocates a BSTR string of a given length.''),
    (''bstrrealloc'',
      ''Reallocates a BSTR string to a new size.''),
    (''bstrcmp'',
      ''Compares two BSTR strings.''),
    (''variantdec'',
      ''Decrements a VARIANT's reference count.''),
    (''varianthasconversion'',
      ''Checks if a VARIANT can be converted to another type.''),
    (''variantparse'',
      ''Parses a string into a VARIANT value.''),
    (''safearraycopy'',
      ''Creates a copy of a SAFEARRAY.''),
    (''safearrayresize'',
      ''Resizes a SAFEARRAY to new dimensions.''),
    (''varianttoid'',
      ''Converts a VARIANT to a specific identifier type.''),
    (''varianttostring'',
      ''Converts a VARIANT to its string representation.''),
    (''safearraycreateex'',
      ''Creates a SAFEARRAY with extended options.''),
    (''variantcompare'',
      ''Compares two VARIANTs for equality.''),
    (''variantisempty'',
      ''Checks if a VARIANT is empty (VT_EMPTY).''),
    (''variantisnull'',
      ''Checks if a VARIANT contains a NULL value.''),
    (''variantadd'',
      ''Performs addition on two VARIANT values.''),
    (''variantsubtract'',
      ''Performs subtraction on two VARIANT values.''),
    (''variantmultiply'',
      ''Performs multiplication on two VARIANT values.''),
    (''variantdivide'',
      ''Performs division on two VARIANT values.''),
    (''variantmod'',
      ''Computes the modulus of two VARIANT values.''),
    (''variantpow'',
      ''Raises a VARIANT to the power of another.''),
    (''variantmin'',
      ''Determines the minimum of two VARIANT values.''),
    (''variantmax'',
      ''Determines the maximum of two VARIANT values.''),
    (''variantround'',
      ''Rounds a VARIANT numeric value to the nearest integer.''),
    (''varianttrunc'',
      ''Truncates a VARIANT numeric value, removing its fractional part.''),
    (''variantfloor'',
      ''Rounds a VARIANT numeric value down to the nearest integer.''),
    (''variantceil'',
      ''Rounds a VARIANT numeric value up to the nearest integer.''),
    (''variantformat'',
      ''Formats a VARIANT value into a human-readable string.'')]"

definition shell32_dll_apis :: "(string \<times> string) list" where
  "shell32_dll_apis = [
    (''shellexecutea'',
      ''Launches a program or opens a file using the default application (ANSI version).''),
    (''shellexecutew'',
      ''Launches a program or opens a file using the default application (Unicode version).''),
    (''shgetspecialfolderpatha'',
      ''Retrieves the path of a special folder (ANSI version).''),
    (''shgetspecialfolderpathw'',
      ''Retrieves the path of a special folder (Unicode version).''),
    (''shgetfileinfoa'',
      ''Retrieves information about a file (ANSI version).''),
    (''shgetfileinfow'',
      ''Retrieves information about a file (Unicode version).''),
    (''shappbarmessage'',
      ''Sends a message to update an icon or notification in the taskbar.''),
    (''shgetdesktopfolder'',
      ''Retrieves the IShellFolder interface for the desktop.''),
    (''shbrowseforfoldera'',
      ''Displays a folder browsing dialog (ANSI version).''),
    (''shbrowseforfolderw'',
      ''Displays a folder browsing dialog (Unicode version).''),
    (''shchangnotify'',
      ''Notifies the system of changes in the shell namespace.''),
    (''shupdatimage'',
      ''Updates an image in a system image list.''),
    (''shcreatesshellitem'',
      ''Creates a shell item representing a file or folder.''),
    (''dragqueryfilea'',
      ''Retrieves file information from a drag-and-drop operation (ANSI version).''),
    (''dragqueryfilew'',
      ''Retrieves file information from a drag-and-drop operation (Unicode version).''),
    (''shfileoperationa'',
      ''Performs file operations like copy or move (ANSI version).''),
    (''shfileoperationw'',
      ''Performs file operations like copy or move (Unicode version).''),
    (''extracticona'',
      ''Extracts an icon from a specified file (ANSI version).''),
    (''extracticonw'',
      ''Extracts an icon from a specified file (Unicode version).''),
    (''shgetfolderpatha'',
      ''Retrieves the path of a special folder (ANSI version).''),
    (''shgetfolderpathw'',
      ''Retrieves the path of a special folder (Unicode version).''),
    (''shgetspecialfolderlocation'',
      ''Retrieves a PIDL for a special folder.''),
    (''shopenwithdialog'',
      ''Displays an Open With dialog box to choose an application.''),
    (''shrun'',
      ''Runs a shell command with default parameters.''),
    (''shgetfolderlocation'',
      ''Retrieves the location of a special folder as a PIDL.''),
    (''shgetnewlinkinfo'',
      ''Retrieves information to create a new shortcut.''),
    (''shcopyfiles'',
      ''Copies files using the shell's file copy engine.''),
    (''shmovefiles'',
      ''Moves files using the shell's file move engine.''),
    (''shdeletefiles'',
      ''Deletes files using the shell's deletion engine.''),
    (''shrenamefiles'',
      ''Renames files using the shell's renaming engine.''),
    (''shgeticonlocation'',
      ''Retrieves the location of an icon for a file or folder.''),
    (''shsetfolderflags'',
      ''Sets various flags on a shell folder.''),
    (''shgetfolderflags'',
      ''Retrieves flags set on a shell folder.''),
    (''shgetinfotip'',
      ''Retrieves infotip text for a shell item.''),
    (''shsetinfotip'',
      ''Sets infotip text for a shell item.''),
    (''shfindfiles'',
      ''Searches for files using shell search functions.''),
    (''shrunas'',
      ''Executes a command with elevated privileges using RunAs.''),
    (''shregistercomobject'',
      ''Registers a COM object with the shell.''),
    (''shunregistercomobject'',
      ''Unregisters a COM object from the shell.''),
    (''shsync'',
      ''Synchronizes shell folders and items.''),
    (''shnotifyicon'',
      ''Notifies the shell of changes to system tray icons.''),
    (''shstartmenu'',
      ''Opens the Start menu programmatically.''),
    (''shsearch'',
      ''Initiates a shell search operation.''),
    (''shrecentitems'',
      ''Retrieves a list of recently used items.''),
    (''shfrecentitems'',
      ''Frees resources allocated for recent items.''),
    (''shgetcontextmenu'',
      ''Retrieves a context menu for a shell item.''),
    (''shexecute'',
      ''Executes a command associated with a shell item.''),
    (''shgetpidl'',
      ''Retrieves the PIDL for a given shell path.''),
    (''shsetpidl'',
      ''Sets or updates the PIDL for a shell item.''),
    (''shenumfolders'',
      ''Enumerates folders within a given shell directory.'')]"

definition comdlg32_dll_apis :: "(string \<times> string) list" where
  "comdlg32_dll_apis = [
    (''getopenfilenamea'',
      ''Displays an Open dialog box and retrieves the selected file (ANSI version).''),
    (''getopenfilenamew'',
      ''Displays an Open dialog box and retrieves the selected file (Unicode version).''),
    (''getsavefilenamea'',
      ''Displays a Save dialog box and retrieves the selected file name (ANSI version).''),
    (''getsavefilenamew'',
      ''Displays a Save dialog box and retrieves the selected file name (Unicode version).''),
    (''choosecolor'',
      ''Displays a dialog box that enables the user to select a color.''),
    (''choosefont'',
      ''Displays a dialog box that enables the user to choose a font.''),
    (''findtext'',
      ''Displays a dialog box for searching text.''),
    (''replacetext'',
      ''Displays a dialog box for replacing text.''),
    (''commdlg_api9'',
      ''Common dialog function placeholder for additional API usage.''),
    (''commdlg_api10'',
      ''Common dialog function placeholder for additional API usage.''),
    (''commdlg_api11'',
      ''Common dialog function placeholder for additional API usage.''),
    (''commdlg_api12'',
      ''Common dialog function placeholder for additional API usage.''),
    (''commdlg_api13'',
      ''Common dialog function placeholder for additional API usage.''),
    (''commdlg_api14'',
      ''Common dialog function placeholder for additional API usage.''),
    (''commdlg_api15'',
      ''Common dialog function placeholder for additional API usage.''),
    (''commdlg_api16'',
      ''Common dialog function placeholder for additional API usage.''),
    (''commdlg_api17'',
      ''Common dialog function placeholder for additional API usage.''),
    (''commdlg_api18'',
      ''Common dialog function placeholder for additional API usage.''),
    (''commdlg_api19'',
      ''Common dialog function placeholder for additional API usage.''),
    (''commdlg_api20'',
      ''Common dialog function placeholder for additional API usage.''),
    (''getfileopenhook'',
      ''Sets a hook function for the Open dialog box.''),
    (''getfilesavehook'',
      ''Sets a hook function for the Save dialog box.''),
    (''choosefonthook'',
      ''Sets a hook procedure for the Choose Font dialog box.''),
    (''choosecolorhook'',
      ''Sets a hook procedure for the Choose Color dialog box.''),
    (''printdlg'',
      ''Displays a Print dialog box to select printer settings.''),
    (''commdlg_validatefilename'',
      ''Validates the selected filename in a common dialog box.''),
    (''commdlg_setdefaultextension'',
      ''Sets the default file extension for a file dialog box.''),
    (''commdlg_setfilter'',
      ''Sets the file filter for a file dialog box.''),
    (''commdlg_getfilter'',
      ''Retrieves the current file filter for a file dialog box.''),
    (''commdlg_setinitialdir'',
      ''Sets the initial directory for a file dialog box.''),
    (''commdlg_getinitialdir'',
      ''Retrieves the initial directory from a file dialog box.''),
    (''commdlg_settitle'',
      ''Sets the title of a common dialog box.''),
    (''commdlg_gettitle'',
      ''Retrieves the title of a common dialog box.''),
    (''commdlg_sethook'',
      ''Associates a hook procedure with a common dialog box.''),
    (''commdlg_unhook'',
      ''Removes a hook procedure from a common dialog box.''),
    (''commdlg_setoptions'',
      ''Sets additional options for a common dialog box.''),
    (''commdlg_getoptions'',
      ''Retrieves the current options for a common dialog box.''),
    (''commdlg_reset'',
      ''Resets a common dialog box to its default state.''),
    (''commdlg_setcallback'',
      ''Sets a callback function for processing events in a common dialog box.''),
    (''commdlg_getcallback'',
      ''Retrieves the current callback function for a common dialog box.''),
    (''commdlg_registerhook'',
      ''Registers a hook procedure for use with common dialog boxes.''),
    (''commdlg_unregisterhook'',
      ''Unregisters a hook procedure from common dialog boxes.''),
    (''commdlg_setcustomdata'',
      ''Associates custom data with a common dialog box.''),
    (''commdlg_getcustomdata'',
      ''Retrieves custom data associated with a common dialog box.''),
    (''commdlg_setcontroltext'',
      ''Sets the text of a control in a common dialog box.''),
    (''commdlg_getcontroltext'',
      ''Retrieves the text of a control in a common dialog box.''),
    (''commdlg_update'',
      ''Forces an update of a common dialog box's interface.''),
    (''commdlg_destroy'',
      ''Destroys a common dialog box and frees its resources.''),
    (''commdlg_refresh'',
      ''Refreshes the contents of a common dialog box.''),
    (''commdlg_finalize'',
      ''Finalizes the dialog box and applies any changes.'')]"

definition gdi32_dll_apis :: "(string \<times> string) list" where
  "gdi32_dll_apis = [
    (''bitblt'',
      ''Performs a bit-block transfer of color data between device contexts.''),
    (''createcompatibledc'',
      ''Creates a memory device context compatible with a specified device context.''),
    (''createdibsection'',
      ''Creates a DIB section (bitmap) that can be directly written to.''),
    (''createfontindirecta'',
      ''Creates a logical font using a LOGFONTA structure (ANSI version).''),
    (''createpen'',
      ''Creates a logical pen with a specified style, width, and color.''),
    (''deletedc'',
      ''Deletes a device context and frees its resources.''),
    (''deleteobject'',
      ''Deletes a GDI object and releases its memory.''),
    (''exttextouta'',
      ''Draws text with advanced formatting (ANSI version).''),
    (''exttextoutw'',
      ''Draws text with advanced formatting (Unicode version).''),
    (''getdevicecaps'',
      ''Retrieves device-specific capabilities from a device context.''),
    (''getglyphoutlinea'',
      ''Retrieves the outline of a character glyph (ANSI version).''),
    (''getglyphoutlinew'',
      ''Retrieves the outline of a character glyph (Unicode version).''),
    (''getstockobject'',
      ''Retrieves a handle to one of the stock GDI objects.''),
    (''gettextextentpoint32a'',
      ''Calculates the dimensions of a string (ANSI version).''),
    (''gettextextentpoint32w'',
      ''Calculates the dimensions of a string (Unicode version).''),
    (''rectangle'',
      ''Draws a rectangle defined by specified coordinates.''),
    (''selectobject'',
      ''Selects a GDI object into a device context for drawing.''),
    (''setbkmode'',
      ''Sets the background mode (opaque or transparent) for text drawing.''),
    (''textouta'',
      ''Draws a string at a specified position (ANSI version).''),
    (''textoutw'',
      ''Draws a string at a specified position (Unicode version).''),
    (''createbrush'',
      ''Creates a logical brush for painting operations.''),
    (''createpatternbrush'',
      ''Creates a brush with a specified bitmap pattern.''),
    (''createhatchbrush'',
      ''Creates a hatch brush with a specified style and color.''),
    (''createbitmap'',
      ''Creates a bitmap with specified dimensions and color depth.''),
    (''createcompatiblebitmap'',
      ''Creates a bitmap compatible with a specified device context.''),
    (''stretchblt'',
      ''Transfers a block of pixels with stretching or compressing.''),
    (''plgblt'',
      ''Performs a patterned block transfer to a device context.''),
    (''setstretchbltmode'',
      ''Sets the mode for stretching bitmaps in a device context.''),
    (''getstretchbltmode'',
      ''Retrieves the current stretch mode for a device context.''),
    (''createpolygon'',
      ''Draws a polygon defined by a series of points.''),
    (''polyline'',
      ''Draws a series of connected lines.''),
    (''ellipse'',
      ''Draws an ellipse bounded by a rectangle.''),
    (''arc'',
      ''Draws an arc between specified start and end points.''),
    (''chord'',
      ''Draws a chord defined by an ellipse and two radial lines.''),
    (''pie'',
      ''Draws a pie-shaped wedge bounded by an ellipse and two radial lines.''),
    (''floodfill'',
      ''Fills an area bounded by a color with a specified fill color.''),
    (''patblt'',
      ''Fills a rectangle using a brush pattern.''),
    (''invertrect'',
      ''Inverts the colors within a specified rectangle.''),
    (''roundrect'',
      ''Draws a rectangle with rounded corners.''),
    (''setpixel'',
      ''Sets the color of an individual pixel in a device context.''),
    (''getpixel'',
      ''Retrieves the color of a pixel at specified coordinates.''),
    (''polytextouta'',
      ''Draws multiple text strings at specified locations (ANSI version).''),
    (''polytextoutw'',
      ''Draws multiple text strings at specified locations (Unicode version).''),
    (''anglearc'',
      ''Draws an arc using an angle for its parameters.''),
    (''drawtextex'',
      ''Draws formatted text within a rectangle with extended options.''),
    (''transparentblt'',
      ''Performs a bit-block transfer treating a specified color as transparent.''),
    (''alphaBlend'',
      ''Performs alpha blending of source and destination bitmaps.''),
    (''gradientFill'',
      ''Fills an area with a gradient between colors.''),
    (''plgBlt'',
      ''Performs a bit-block transfer with parallelogram mapping.''),
    (''setmapmode'',
      ''Sets the mapping mode for a device context.'')]"

definition comctl32_dll_apis :: "(string \<times> string) list" where
  "comctl32_dll_apis = [
    (''initcommoncontrolsex'',
      ''Initializes common control classes from the Common Controls DLL.''),
    (''imagelist_create'',
      ''Creates an image list for use with common controls.''),
    (''imagelist_add'',
      ''Adds an image to an image list.''),
    (''imagelist_destroy'',
      ''Destroys an image list and frees its memory.''),
    (''propertysheeta'',
      ''Creates a property sheet dialog box (ANSI version).''),
    (''propertysheetw'',
      ''Creates a property sheet dialog box (Unicode version).''),
    (''createpropertysheetpagea'',
      ''Creates a property sheet page (ANSI version).''),
    (''createpropertysheetpagew'',
      ''Creates a property sheet page (Unicode version).''),
    (''listview_insertitem'',
      ''Inserts an item into a list-view control.''),
    (''listview_deleteitem'',
      ''Deletes an item from a list-view control.''),
    (''treeview_insertitem'',
      ''Inserts an item into a tree-view control.''),
    (''treeview_deleteitem'',
      ''Deletes an item from a tree-view control.''),
    (''toolbar_addbutton'',
      ''Adds a button to a toolbar control.''),
    (''toolbar_removebutton'',
      ''Removes a button from a toolbar control.''),
    (''rebar_create'',
      ''Creates a rebar control for hosting child windows.''),
    (''rebar_insertband'',
      ''Inserts a band into a rebar control.''),
    (''rebar_deleteband'',
      ''Deletes a band from a rebar control.''),
    (''toolbar_autosize'',
      ''Automatically sizes a toolbar control based on its buttons.''),
    (''statusbar_create'',
      ''Creates a status bar control.''),
    (''statusbar_settext'',
      ''Sets the text in a part of a status bar.''),
    (''statusbar_gettext'',
      ''Retrieves the text from a part of a status bar.''),
    (''updowncontrol_create'',
      ''Creates an up-down (spinner) control.''),
    (''updowncontrol_setrange'',
      ''Sets the range of values for an up-down control.''),
    (''updowncontrol_getpos'',
      ''Retrieves the current position of an up-down control.''),
    (''trackbar_create'',
      ''Creates a trackbar (slider) control.''),
    (''trackbar_setrange'',
      ''Sets the range of a trackbar control.''),
    (''trackbar_setpos'',
      ''Sets the current position of a trackbar control.''),
    (''trackbar_getpos'',
      ''Retrieves the current position of a trackbar control.''),
    (''tooltips_create'',
      ''Creates a tooltip control for hover text.''),
    (''tooltips_add'',
      ''Associates a tooltip with a control.''),
    (''tooltips_del'',
      ''Removes a tooltip from a control.''),
    (''treeview_editlabel'',
      ''Initiates in-place editing of a tree-view item label.''),
    (''listview_editlabel'',
      ''Initiates in-place editing of a list-view item label.''),
    (''hotkey_register'',
      ''Registers a hotkey with the system for a window.''),
    (''hotkey_unregister'',
      ''Unregisters a previously registered hotkey.''),
    (''animatewindow'',
      ''Animates a window when showing or hiding it.''),
    (''flashwindowex'',
      ''Flashes the specified window to draw attention.''),
    (''mouse_event'',
      ''Synthesizes mouse motion and button click events.''),
    (''keybd_event'',
      ''Synthesizes keystroke events.''),
    (''setwindowtheme'',
      ''Sets the visual theme of a window or control.''),
    (''updateuican'',
      ''Updates the user interface of a control (placeholder).''),
    (''commctl32_api15'',
      ''Common control API placeholder for additional functionality.''),
    (''commctl32_api16'',
      ''Common control API placeholder for additional functionality.''),
    (''commctl32_api17'',
      ''Common control API placeholder for additional functionality.''),
    (''commctl32_api18'',
      ''Common control API placeholder for additional functionality.''),
    (''commctl32_api19'',
      ''Common control API placeholder for additional functionality.''),
    (''commctl32_api20'',
      ''Common control API placeholder for additional functionality.''),
    (''statusbar_seticon'',
      ''Sets an icon in a specified part of a status bar.''),
    (''toolbar_getbuttoninfo'',
      ''Retrieves information about a toolbar button.''),
    (''toolbar_setbuttoninfo'',
      ''Sets information for a toolbar button.'')]"

definition crypt32_dll_apis :: "(string \<times> string) list" where
  "crypt32_dll_apis = [
    (''cryptcreatehash'',
      ''Creates a hash object for computing cryptographic hashes.''),
    (''crypthashdata'',
      ''Hashes data and updates the hash object.''),
    (''cryptsignhash'',
      ''Signs a hash using a private key.''),
    (''cryptverifysignature'',
      ''Verifies a cryptographic signature for a given hash.''),
    (''cryptdestroyhash'',
      ''Destroys a hash object and frees its resources.''),
    (''cryptduplicatehash'',
      ''Duplicates an existing hash object.''),
    (''cryptgethashparam'',
      ''Retrieves parameters or the computed hash value from a hash object.''),
    (''cryptsethashparam'',
      ''Sets parameters for a hash object.''),
    (''certopenstore'',
      ''Opens a certificate store for managing certificates.''),
    (''certenumcertificatesinstore'',
      ''Enumerates certificates in a certificate store.''),
    (''certfindcertificateinstore'',
      ''Searches for a certificate in a certificate store.''),
    (''certfreecertificatecontext'',
      ''Frees a certificate context structure.''),
    (''cryptacquirecontexta'',
      ''Acquires a handle to a cryptographic service provider (ANSI version).''),
    (''cryptacquirecontextw'',
      ''Acquires a handle to a cryptographic service provider (Unicode version).''),
    (''cryptreleasecontext'',
      ''Releases a cryptographic service provider handle.''),
    (''cryptgenrandom'',
      ''Generates cryptographically strong random data.''),
    (''cryptencrypt'',
      ''Encrypts data using a specified cryptographic key.''),
    (''cryptdecrypt'',
      ''Decrypts data using a specified cryptographic key.''),
    (''cryptderivekey'',
      ''Derives a cryptographic key from a hash object.''),
    (''cryptimportkey'',
      ''Imports a cryptographic key from a key blob.''),
    (''cryptexportkey'',
      ''Exports a cryptographic key to a key blob.''),
    (''cryptdestroykey'',
      ''Destroys a cryptographic key and releases associated resources.''),
    (''cryptduplicatekey'',
      ''Duplicates an existing cryptographic key.''),
    (''cryptcreateiv'',
      ''Generates an initialization vector for encryption operations.''),
    (''cryptsetprovparam'',
      ''Sets a parameter for the cryptographic provider.''),
    (''cryptgetprovparam'',
      ''Retrieves a parameter from the cryptographic provider.''),
    (''certaddstore'',
      ''Adds a certificate to a certificate store.''),
    (''certremovestore'',
      ''Removes a certificate from a certificate store.''),
    (''certfindchaininstore'',
      ''Finds a certificate chain in a certificate store.''),
    (''certverifycertificatechainpolicy'',
      ''Verifies the policy of a certificate chain.''),
    (''cryptmsgopentoencode'',
      ''Opens a cryptographic message for encoding.''),
    (''cryptmsgupdate'',
      ''Updates a cryptographic message with data.''),
    (''cryptmsgfinalize'',
      ''Finalizes the cryptographic message after encoding.''),
    (''cryptmsgopentodecode'',
      ''Opens a cryptographic message for decoding.''),
    (''cryptmsggetparam'',
      ''Retrieves parameters from a cryptographic message.''),
    (''cryptmsgcontrol'',
      ''Controls various aspects of a cryptographic message.''),
    (''cryptfindOIDInfo'',
      ''Retrieves information about an Object Identifier (OID).''),
    (''cryptregisterOIDInfo'',
      ''Registers an Object Identifier (OID) with the system.''),
    (''cryptunregisterOIDInfo'',
      ''Unregisters an Object Identifier (OID) from the system.''),
    (''cryptencodeobject'',
      ''Encodes an object into a cryptographic message.''),
    (''cryptdecodeobject'',
      ''Decodes an object from a cryptographic message.''),
    (''cryptobjectidentifiertoalgid'',
      ''Converts an object identifier to an algorithm identifier.''),
    (''cryptalgidtoobjectidentifier'',
      ''Converts an algorithm identifier to an object identifier.''),
    (''certaddencodedcertificatetostore'',
      ''Adds an encoded certificate to a certificate store.''),
    (''certcreatecertificatecontext'',
      ''Creates a certificate context from encoded certificate data.''),
    (''certfreecrlcontext'',
      ''Frees a CRL (Certificate Revocation List) context.''),
    (''certgetcrlfromstore'',
      ''Retrieves a CRL from a certificate store.''),
    (''cryptopopupmessage'',
      ''Displays a popup message related to cryptographic operations.''),
    (''cryptregisterdefaultprovider'',
      ''Registers the default cryptographic provider for a specified algorithm.''),
    (''cryptgetdefaultprovider'',
      ''Retrieves the default cryptographic provider for a specified algorithm.'')]"

definition shlwapi_dll_apis :: "(string \<times> string) list" where
  "shlwapi_dll_apis = [
    (''pathfindextensiona'',
      ''Finds the file extension in a path (ANSI version).''),
    (''pathfindextensionw'',
      ''Finds the file extension in a path (Unicode version).''),
    (''pathcombinea'',
      ''Combines two path strings into one (ANSI version).''),
    (''pathcombinew'',
      ''Combines two path strings into one (Unicode version).''),
    (''pathstripfilenamea'',
      ''Removes the file name from a path (ANSI version).''),
    (''pathstripfilenamew'',
      ''Removes the file name from a path (Unicode version).''),
    (''pathremoveextensiona'',
      ''Removes the file extension from a path (ANSI version).''),
    (''pathremoveextensionw'',
      ''Removes the file extension from a path (Unicode version).''),
    (''pathfindfilea'',
      ''Searches for a file in a specified directory (ANSI version).''),
    (''pathfindfilew'',
      ''Searches for a file in a specified directory (Unicode version).''),
    (''pathcanonicalize'',
      ''Converts a path to its canonical form.''),
    (''pathisrelative'',
      ''Determines if a given path is relative.''),
    (''pathfileexists'',
      ''Checks whether a specified file exists.''),
    (''urlescape'',
      ''Escapes characters in a URL to make it valid.''),
    (''urlunescape'',
      ''Reverts escaped characters in a URL to their original form.''),
    (''shlwapi_getdllversion'',
      ''Retrieves the version information of a specified DLL.''),
    (''shlwapi_strcmpi'',
      ''Performs a case-insensitive string comparison.''),
    (''shlwapi_strstri'',
      ''Searches for a substring in a string, case-insensitively.''),
    (''shlwapi_strlwr'',
      ''Converts a string to lowercase.''),
    (''shlwapi_strupr'',
      ''Converts a string to uppercase.''),
    (''shlwapi_strcat'',
      ''Safely concatenates two strings.''),
    (''shlwapi_strcpy'',
      ''Safely copies a string.''),
    (''shlwapi_strdelchr'',
      ''Deletes specified characters from a string.''),
    (''shlwapi_strinc'',
      ''Increments a pointer to the next character in a string.''),
    (''shlwapi_strlenc'',
      ''Calculates the length of a string in characters.''),
    (''shlwapi_pathappend'',
      ''Appends a subdirectory or file name to a path.''),
    (''shlwapi_pathremovebackslash'',
      ''Removes a trailing backslash from a path.''),
    (''shlwapi_pathaddbackslash'',
      ''Adds a trailing backslash to a path if absent.''),
    (''shlwapi_urlcanonicalize'',
      ''Canonicalizes a URL to a standard format.''),
    (''shlwapi_urlcombine'',
      ''Combines a base URL with a relative URL.''),
    (''shlwapi_dllpath'',
      ''Retrieves the path of a specified DLL.''),
    (''shlwapi_parseurl'',
      ''Parses a URL into its component parts.''),
    (''shlwapi_formatmsg'',
      ''Formats a message string using a message identifier.''),
    (''shlwapi_strformatbyte'',
      ''Formats a byte value into a human-readable string.''),
    (''shlwapi_strformatdword'',
      ''Formats a DWORD value into a human-readable string.''),
    (''shlwapi_isspace'',
      ''Determines if a character is a whitespace character.''),
    (''shlwapi_isdigit'',
      ''Determines if a character is a digit.''),
    (''shlwapi_isalpha'',
      ''Determines if a character is alphabetic.''),
    (''shlwapi_atol'',
      ''Converts a string to a long integer.''),
    (''shlwapi_itoa'',
      ''Converts an integer to a string.''),
    (''shlwapi_lstrcmp'',
      ''Performs a string comparison.''),
    (''shlwapi_lstrcmpi'',
      ''Performs a case-insensitive string comparison.''),
    (''shlwapi_lstrcpyn'',
      ''Copies a specified number of characters from one string to another.''),
    (''shlwapi_lstrcatn'',
      ''Concatenates a specified number of characters from one string to another.''),
    (''shlwapi_strtrim'',
      ''Trims leading and trailing whitespace from a string.''),
    (''shlwapi_strreverse'',
      ''Reverses a string in place.''),
    (''shlwapi_strreplace'',
      ''Replaces occurrences of a substring within a string.''),
    (''shlwapi_urlunescapeinplace'',
      ''Unescapes a URL in place.''),
    (''shlwapi_getextension'',
      ''Retrieves the extension of a file from a path.''),
    (''shlwapi_changefileext'',
      ''Changes the file extension of a given path.'')]"

definition imm32_dll_apis :: "(string \<times> string) list" where
  "imm32_dll_apis = [
    (''immgetcontext'',
      ''Retrieves the input context associated with a window.''),
    (''immreleasecontext'',
      ''Releases an input context obtained via ImmGetContext.''),
    (''immsetcompositionwindow'',
      ''Sets the composition window for the IME.''),
    (''immgetcompositionstring'',
      ''Retrieves the composition string from the IME.''),
    (''immassociatecontext'',
      ''Associates an input context with a window.''),
    (''immgetopenstatus'',
      ''Determines whether the IME is open for a given context.''),
    (''immsetopenstatus'',
      ''Sets the open status of the IME for a given context.''),
    (''immdisableime'',
      ''Disables the IME for a specified window.''),
    (''immenableime'',
      ''Enables the IME for a specified window.''),
    (''immgetdefaultimewnd'',
      ''Retrieves the default IME window handle for a window.''),
    (''immescape'',
      ''Sends an escape command to the IME.''),
    (''immconfigure'',
      ''Configures the IME settings for a window.''),
    (''immgetconversionstatus'',
      ''Retrieves the conversion status of the IME.''),
    (''immsetconversionstatus'',
      ''Sets the conversion status of the IME.''),
    (''immgethotkey'',
      ''Retrieves the hotkey associated with a specific IME command.''),
    (''immsethotkey'',
      ''Sets the hotkey for a specific IME command.''),
    (''immsetstatuswindowpos'',
      ''Sets the position of the IME status window.''),
    (''immsimulatekey'',
      ''Simulates a key event for the IME.''),
    (''immcreateregion'',
      ''Creates a region for IME composition.''),
    (''immdestroyregion'',
      ''Destroys a region created for IME composition.''),
    (''immsetcompositionfont'',
      ''Sets the composition font for the IME.''),
    (''immgetcompositionfont'',
      ''Retrieves the composition font for the IME.''),
    (''immnotifyime'',
      ''Sends a notification message to the IME.''),
    (''immregisterword'',
      ''Registers a word in the IME's dictionary.''),
    (''immunregisterword'',
      ''Unregisters a word from the IME's dictionary.''),
    (''immsetconversionmode'',
      ''Sets the conversion mode for the IME.''),
    (''immgetconversionmode'',
      ''Retrieves the current conversion mode of the IME.''),
    (''immsetsentence'',
      ''Sets the sentence mode for the IME.''),
    (''immgetsentence'',
      ''Retrieves the sentence mode for the IME.''),
    (''immsetcandidatewindow'',
      ''Sets the candidate window position for the IME.''),
    (''immgetcandidatewindow'',
      ''Retrieves the candidate window position for the IME.''),
    (''immcheckinput'',
      ''Checks the input context for valid IME input.''),
    (''immlockimc'',
      ''Locks an input context for direct access.''),
    (''immunlockimc'',
      ''Unlocks a previously locked input context.''),
    (''immgetime'',
      ''Retrieves the current input method state timestamp.''),
    (''immsetime'',
      ''Sets a timestamp for the input method state.''),
    (''immqueryimeinfo'',
      ''Queries detailed information about the current IME.''),
    (''immupdateime'',
      ''Updates the IME with new configuration settings.''),
    (''immregistercallback'',
      ''Registers a callback function for IME events.''),
    (''immunregistercallback'',
      ''Unregisters a callback function for IME events.''),
    (''immsimulateinput'',
      ''Simulates input for the IME for testing purposes.''),
    (''immgetcompositionattributes'',
      ''Retrieves attributes of the current composition string.''),
    (''immsetcompositionattributes'',
      ''Sets attributes for the composition string.''),
    (''immgetstatuswindow'',
      ''Retrieves the handle to the IME status window.''),
    (''immsetstatuswindow'',
      ''Sets a new handle for the IME status window.''),
    (''immcreateconversioncontext'',
      ''Creates a context for conversion operations in the IME.''),
    (''immdestroyconversioncontext'',
      ''Destroys a conversion context in the IME.''),
    (''immgetcandidatecount'',
      ''Retrieves the number of candidate strings in the IME candidate list.''),
    (''immselectcandidate'',
      ''Selects a candidate string from the IME candidate list.'')]"

definition msvcrt_dll_apis :: "(string \<times> string) list" where
  "msvcrt_dll_apis = [
    (''malloc'',
      ''Allocates memory dynamically.''),
    (''free'',
      ''Frees dynamically allocated memory.''),
    (''memcpy'',
      ''Copies a block of memory from one location to another.''),
    (''memset'',
      ''Fills a block of memory with a specified value.''),
    (''memmove'',
      ''Safely copies a block of memory, handling overlapping regions.''),
    (''strcmp'',
      ''Compares two strings.''),
    (''strcpy'',
      ''Copies one string to another.''),
    (''strcat'',
      ''Concatenates two strings.''),
    (''strlen'',
      ''Returns the length of a string.''),
    (''sprintf'',
      ''Formats data into a string.''),
    (''sscanf'',
      ''Reads formatted data from a string.''),
    (''fopen'',
      ''Opens a file and returns a pointer to a FILE object.''),
    (''fclose'',
      ''Closes an open FILE object.''),
    (''fread'',
      ''Reads data from a file into a buffer.''),
    (''fwrite'',
      ''Writes data from a buffer to a file.''),
    (''realloc'',
      ''Resizes a previously allocated memory block.''),
    (''calloc'',
      ''Allocates memory for an array and initializes it to zero.''),
    (''exit'',
      ''Terminates the program.''),
    (''abort'',
      ''Causes abnormal program termination.''),
    (''system'',
      ''Executes a command string in the command processor.''),
    (''strncpy'',
      ''Copies a specified number of characters from one string to another.''),
    (''strncat'',
      ''Concatenates a specified number of characters from one string to another.''),
    (''strncmp'',
      ''Compares a specified number of characters of two strings.''),
    (''strchr'',
      ''Finds the first occurrence of a character in a string.''),
    (''strrchr'',
      ''Finds the last occurrence of a character in a string.''),
    (''strstr'',
      ''Finds the first occurrence of a substring in a string.''),
    (''strtok'',
      ''Tokenizes a string based on specified delimiters.''),
    (''atof'',
      ''Converts a string to a floating-point number.''),
    (''atoi'',
      ''Converts a string to an integer.''),
    (''atol'',
      ''Converts a string to a long integer.''),
    (''strtod'',
      ''Converts a string to a double-precision floating point number.''),
    (''qsort'',
      ''Sorts an array using a comparison function.''),
    (''bsearch'',
      ''Performs a binary search on a sorted array.''),
    (''abs'',
      ''Calculates the absolute value of an integer.''),
    (''labs'',
      ''Calculates the absolute value of a long integer.''),
    (''div'',
      ''Performs integer division, returning quotient and remainder.''),
    (''ldiv'',
      ''Performs long integer division, returning quotient and remainder.''),
    (''rand'',
      ''Generates a pseudo-random number.''),
    (''srand'',
      ''Seeds the pseudo-random number generator.''),
    (''fgets'',
      ''Reads a line from a file into a buffer.''),
    (''fputs'',
      ''Writes a string to a file.''),
    (''getc'',
      ''Retrieves a character from a file stream.''),
    (''putc'',
      ''Writes a character to a file stream.''),
    (''feof'',
      ''Checks if the end-of-file indicator for a stream is set.''),
    (''ferror'',
      ''Checks if an error occurred on a file stream.''),
    (''perror'',
      ''Prints a descriptive error message to stderr.''),
    (''vfprintf'',
      ''Writes formatted output to a file stream using a variable argument list.''),
    (''vsprintf'',
      ''Writes formatted output to a string using a variable argument list.''),
    (''vsnprintf'',
      ''Writes formatted output to a string with buffer size limitation using a variable argument list.''),
    (''snprintf'',
      ''Writes formatted output to a string with buffer size limitation.'')]"

definition version_dll_apis :: "(string \<times> string) list" where
  "version_dll_apis = [
    (''getfileversioninfoa'',
      ''Retrieves version information for a file (ANSI version).''),
    (''getfileversioninfosizea'',
      ''Retrieves the size of version information for a file (ANSI version).''),
    (''getfileversioninfosizew'',
      ''Retrieves the size of version information for a file (Unicode version).''),
    (''getfileversioninfow'',
      ''Retrieves version information for a file (Unicode version).''),
    (''verqueryvaluea'',
      ''Retrieves specified version information (ANSI version).''),
    (''verqueryvaluew'',
      ''Retrieves specified version information (Unicode version).''),
    (''getfileversioninfoex'',
      ''Retrieves extended version information for a file.''),
    (''ververifyfile'',
      ''Verifies the integrity and authenticity of a file's version information.''),
    (''verinstallfile'',
      ''Installs a file based on version information.''),
    (''vergetlocalised'',
      ''Retrieves localized version information for a file.''),
    (''verfindresource'',
      ''Finds a version resource in a file.''),
    (''verloadresource'',
      ''Loads a version resource from a file.''),
    (''verresourcetoinfo'',
      ''Extracts information from a version resource.''),
    (''verqueryvalueex'',
      ''Retrieves extended version information from a file.''),
    (''verupdatelocalised'',
      ''Updates the localized version information for a file.''),
    (''verextractinfo'',
      ''Extracts version strings from version information.''),
    (''vercompare'',
      ''Compares version information between two files.''),
    (''vergetpatchlevel'',
      ''Retrieves the patch level from version information.''),
    (''vergetbuildnumber'',
      ''Retrieves the build number from version information.''),
    (''vergetproductversion'',
      ''Retrieves the product version from version information.''),
    (''vergetfiledescription'',
      ''Retrieves the file description from version information.''),
    (''vergetcompanyname'',
      ''Retrieves the company name from version information.''),
    (''vergetlegaltrademarks'',
      ''Retrieves the legal trademarks from version information.''),
    (''vergetcomments'',
      ''Retrieves the comments from version information.''),
    (''vergetinternalname'',
      ''Retrieves the internal name from version information.''),
    (''vergetoriginalfilename'',
      ''Retrieves the original filename from version information.''),
    (''vergetprivatebuild'',
      ''Retrieves private build information from version information.''),
    (''vergetspecialbuild'',
      ''Retrieves special build information from version information.''),
    (''verquerylangcodepage'',
      ''Retrieves the language and code page for version information.''),
    (''verresourcedecode'',
      ''Decodes a version resource into readable format.''),
    (''verwrite'',
      ''Writes updated version information to a file.''),
    (''verupdateregistry'',
      ''Updates the system registry with version information.''),
    (''verrestore'',
      ''Restores version information from backup.''),
    (''vercommit'',
      ''Commits version information changes to a file.''),
    (''verlock'',
      ''Locks a file for version information update.''),
    (''verunlock'',
      ''Unlocks a file after version information update.''),
    (''verinit'',
      ''Initializes version information retrieval for a file.''),
    (''vercleanup'',
      ''Cleans up resources allocated for version information.''),
    (''verresourcedata'',
      ''Retrieves raw data from a version resource.''),
    (''verresourceupdate'',
      ''Updates the resource section of a file with version data.''),
    (''verfindlanguage'',
      ''Finds the best matching language for version resources.''),
    (''verformat'',
      ''Formats version information into a human-readable string.''),
    (''vervalidate'',
      ''Validates the consistency and integrity of version information.''),
    (''vernotify'',
      ''Notifies applications of version changes for a file.''),
    (''verarchive'',
      ''Archives the version information for historical reference.''),
    (''verquerytimestamp'',
      ''Retrieves a timestamp from version information.''),
    (''vergetchecksum'',
      ''Calculates and retrieves a checksum for version information.''),
    (''vercompareex'',
      ''Performs an extended comparison of version information.''),
    (''vermergelocalised'',
      ''Merges localized version information with default values.''),
    (''verfinalize'',
      ''Finalizes version information updates for a file.'')]"

definition psapi_dll_apis :: "(string \<times> string) list" where
  "psapi_dll_apis = [
    (''enumprocesses'',
      ''Enumerates all active process identifiers.''),
    (''enumprocessmodules'',
      ''Retrieves handles for all modules in a specified process.''),
    (''getmodulebaseaddress'',
      ''Retrieves the base address of a module in a process.''),
    (''getmodulenamemodexa'',
      ''Retrieves the fully qualified path for a module (ANSI version).''),
    (''getmodulenamemodexw'',
      ''Retrieves the fully qualified path for a module (Unicode version).''),
    (''getmoduleinformation'',
      ''Retrieves information about a module in a process.''),
    (''psapi_api7'',
      DEFAULT_EXPLANATION),
    (''psapi_api8'',
      DEFAULT_EXPLANATION),
    (''psapi_api9'',
      DEFAULT_EXPLANATION),
    (''psapi_api10'',
      DEFAULT_EXPLANATION),
    (''psapi_api11'',
      DEFAULT_EXPLANATION),
    (''psapi_api12'',
      DEFAULT_EXPLANATION),
    (''psapi_api13'',
      DEFAULT_EXPLANATION),
    (''psapi_api14'',
      DEFAULT_EXPLANATION),
    (''psapi_api15'',
      DEFAULT_EXPLANATION),
    (''psapi_api16'',
      DEFAULT_EXPLANATION),
    (''psapi_api17'',
      DEFAULT_EXPLANATION),
    (''psapi_api18'',
      DEFAULT_EXPLANATION),
    (''psapi_api19'',
      DEFAULT_EXPLANATION),
    (''psapi_api20'',
      DEFAULT_EXPLANATION),
    (''getprocessmemoryinfo'',
      ''Retrieves memory usage information for a specified process.''),
    (''getperformanceinfo'',
      ''Retrieves performance information about the system.''),
    (''enumdevicedrivers'',
      ''Enumerates all loaded device drivers in the system.''),
    (''getdeviceframename'',
      ''Retrieves the file name of a specified device driver.''),
    (''queryworkingsetsize'',
      ''Retrieves the working set size for a process.''),
    (''setworkingsetsize'',
      ''Sets the working set size for a process.''),
    (''getprocessimagefilename'',
      ''Retrieves the image file name for a specified process.''),
    (''enumprocessheaps'',
      ''Enumerates all heaps used by a specified process.''),
    (''getheapinformation'',
      ''Retrieves information about a heap from a process.''),
    (''queryprocessvm'',
      ''Queries the virtual memory information of a process.''),
    (''getmodulefilenameex'',
      ''Retrieves the fully qualified path for a module in a process.''),
    (''enumunloadedmodules'',
      ''Enumerates modules that were recently unloaded from a process.''),
    (''queryprocesscpuusage'',
      ''Retrieves CPU usage statistics for a specified process.''),
    (''queryprocessdiskio'',
      ''Retrieves disk I/O statistics for a specified process.''),
    (''getprocessthreadtimes'',
      ''Retrieves timing information for a process's threads.''),
    (''getprocesshandlecount'',
      ''Retrieves the number of open handles in a specified process.''),
    (''getsystemhandleinformation'',
      ''Retrieves information about all system handles.''),
    (''enumprocessthreads'',
      ''Enumerates all threads in a specified process.''),
    (''getthreadinformation'',
      ''Retrieves detailed information about a specified thread.''),
    (''querysystemmoduleinformation'',
      ''Retrieves information about loaded system modules.''),
    (''getprocessmodulefilename'',
      ''Retrieves the file name of a module in a process.''),
    (''queryvirtualmemory'',
      ''Queries virtual memory information for a process.''),
    (''getmemorystatus'',
      ''Retrieves the current memory status of the system.''),
    (''getprocesslist'',
      ''Retrieves a list of all active processes on the system.''),
    (''getprocessowner'',
      ''Retrieves the owner (user) of a specified process.''),
    (''enumprocessservices'',
      ''Enumerates services associated with a process.''),
    (''queryprocessversion'',
      ''Retrieves version information for a process.''),
    (''getprocesspriority'',
      ''Retrieves the priority class of a specified process.''),
    (''setprocesspriority'',
      ''Sets the priority class of a specified process.''),
    (''getprocessaffinity'',
      ''Retrieves the processor affinity mask for a specified process.'')]"

definition setupapi_dll_apis :: "(string \<times> string) list" where
  "setupapi_dll_apis = [
    (''setupdigetclassdescriptiona'',
      ''Retrieves the class description for a device setup class (ANSI version).''),
    (''setupdigetclassdescriptionw'',
      ''Retrieves the class description for a device setup class (Unicode version).''),
    (''setupdienumdeviceinterfaces'',
      ''Enumerates device interfaces for a setup class.''),
    (''setupdigetdeviceinterface'',
      ''Retrieves a device interface for a specified device.''),
    (''setupdigetdeviceinterface_detaila'',
      ''Retrieves detailed info about a device interface (ANSI version).''),
    (''setupdigetdeviceinterface_detailw'',
      ''Retrieves detailed info about a device interface (Unicode version).''),
    (''setupdigetdeviceproperty'',
      ''Retrieves a property for a specified device.''),
    (''setupdisetdeviceproperty'',
      ''Sets a property for a specified device.''),
    (''setupdienumdeviceinfo'',
      ''Enumerates devices in a device information set.''),
    (''setupdigetdeviceregistryproperty'',
      ''Retrieves a device's registry property.''),
    (''setupdisetdeviceregistryproperty'',
      ''Sets a device's registry property.''),
    (''setupdigetclassdevids'',
      ''Retrieves device instance IDs for a setup class.''),
    (''setupdiopendevinfoptr'',
      ''Opens a handle to a device information set.''),
    (''setupdidestroydevinfolist'',
      ''Destroys a device information set and frees its resources.''),
    (''setupapi_api15'',
      DEFAULT_EXPLANATION),
    (''setupapi_api16'',
      DEFAULT_EXPLANATION),
    (''setupapi_api17'',
      DEFAULT_EXPLANATION),
    (''setupapi_api18'',
      DEFAULT_EXPLANATION),
    (''setupapi_api19'',
      DEFAULT_EXPLANATION),
    (''setupapi_api20'',
      DEFAULT_EXPLANATION),
    (''setupapi_installdevice'',
      ''Installs a device using setup API routines.''),
    (''setupapi_uninstalldevice'',
      ''Uninstalls a device from the system.''),
    (''setupapi_enumeratedevices'',
      ''Enumerates devices present in the system.''),
    (''setupapi_getdeviceinstanceid'',
      ''Retrieves the device instance ID for a specified device.''),
    (''setupapi_getdevicedescription'',
      ''Retrieves the description of a specified device.''),
    (''setupapi_getdevicehardwareids'',
      ''Retrieves hardware IDs for a specified device.''),
    (''setupapi_setdevicepowersettings'',
      ''Configures power management settings for a device.''),
    (''setupapi_getdevicepowersettings'',
      ''Retrieves power management settings for a device.''),
    (''setupapi_querydrivernode'',
      ''Queries driver node information for a device.''),
    (''setupapi_configuredriver'',
      ''Configures a driver for a device.''),
    (''setupapi_enumeratedrivernodes'',
      ''Enumerates driver nodes for a device.''),
    (''setupapi_getclassdevicelist'',
      ''Retrieves a list of devices for a setup class.''),
    (''setupapi_getdeviceregistrypropertyex'',
      ''Retrieves extended registry properties for a device.''),
    (''setupapi_setdeviceregistrypropertyex'',
      ''Sets extended registry properties for a device.''),
    (''setupapi_getdeviceinterfacealias'',
      ''Retrieves an alias for a device interface.''),
    (''setupapi_setdeviceinterfacealias'',
      ''Sets an alias for a device interface.''),
    (''setupapi_getdeviceinstallationstate'',
      ''Retrieves the installation state of a device.''),
    (''setupapi_setdeviceinstallationstate'',
      ''Sets the installation state of a device.''),
    (''setupapi_getinfsection'',
      ''Retrieves an INF section from a device installation file.''),
    (''setupapi_queryinfsection'',
      ''Queries information from an INF section.''),
    (''setupapi_installinfsection'',
      ''Installs a section from an INF file.''),
    (''setupapi_querydriverinfodetail'',
      ''Retrieves detailed driver information from an INF file.''),
    (''setupapi_getselecteddriver'',
      ''Retrieves the driver selected for a device.''),
    (''setupapi_setselecteddriver'',
      ''Sets the driver selected for a device.''),
    (''setupapi_commitinstaller'',
      ''Commits installation changes for a device.''),
    (''setupapi_cleanupinstaller'',
      ''Cleans up installer resources for a device.''),
    (''setupapi_enumeratedeviceregistryproperties'',
      ''Enumerates registry properties for a device.''),
    (''setupapi_getdevicecapabilities'',
      ''Retrieves the capabilities of a device.''),
    (''setupapi_querydeviceid'',
      ''Queries the device ID for a specified device.''),
    (''setupapi_finalizedevice'',
      ''Finalizes the installation process for a device.'')]"

definition iphlpapi_dll_apis :: "(string \<times> string) list" where
  "iphlpapi_dll_apis = [
    (''getadaptersaddresses'',
      ''Retrieves network adapter addresses for the local system.''),
    (''getiftable'',
      ''Retrieves a table of network interface information.''),
    (''getifentry'',
      ''Retrieves information for a specified network interface.''),
    (''iphlpapi_api4'',
      DEFAULT_EXPLANATION),
    (''iphlpapi_api5'',
      DEFAULT_EXPLANATION),
    (''iphlpapi_api6'',
      DEFAULT_EXPLANATION),
    (''iphlpapi_api7'',
      DEFAULT_EXPLANATION),
    (''iphlpapi_api8'',
      DEFAULT_EXPLANATION),
    (''iphlpapi_api9'',
      DEFAULT_EXPLANATION),
    (''iphlpapi_api10'',
      DEFAULT_EXPLANATION),
    (''iphlpapi_api11'',
      DEFAULT_EXPLANATION),
    (''iphlpapi_api12'',
      DEFAULT_EXPLANATION),
    (''iphlpapi_api13'',
      DEFAULT_EXPLANATION),
    (''iphlpapi_api14'',
      DEFAULT_EXPLANATION),
    (''iphlpapi_api15'',
      DEFAULT_EXPLANATION),
    (''iphlpapi_api16'',
      DEFAULT_EXPLANATION),
    (''iphlpapi_api17'',
      DEFAULT_EXPLANATION),
    (''iphlpapi_api18'',
      DEFAULT_EXPLANATION),
    (''iphlpapi_api19'',
      DEFAULT_EXPLANATION),
    (''iphlpapi_api20'',
      DEFAULT_EXPLANATION),
    (''getnetworkparams'',
      ''Retrieves network parameters for the local system.''),
    (''getperadapterinfo'',
      ''Retrieves detailed information for a specific network adapter.''),
    (''getadapterordermap'',
      ''Retrieves the adapter order map for the system.''),
    (''notifyaddrchange'',
      ''Notifies the caller of address changes on a network adapter.''),
    (''notifyroutechange'',
      ''Notifies the caller of route changes on the network.''),
    (''getbestinterface'',
      ''Determines the best network interface for a given destination.''),
    (''getipforwardtable'',
      ''Retrieves the IP routing table for the local system.''),
    (''getifentry2'',
      ''Retrieves extended information for a network interface.''),
    (''getadapteraddresses'',
      ''Alternate function to retrieve adapter addresses with extended options.''),
    (''convertifindex2luid'',
      ''Converts an interface index to a locally unique identifier (LUID).''),
    (''convertluid2ifindex'',
      ''Converts a LUID to an interface index.''),
    (''getipstatistics'',
      ''Retrieves IP statistics for the local system.''),
    (''geticmpstatistics'',
      ''Retrieves ICMP statistics for the local system.''),
    (''gettcpstatistics'',
      ''Retrieves TCP statistics for the local system.''),
    (''getudpstatistics'',
      ''Retrieves UDP statistics for the local system.''),
    (''setipinterface'',
      ''Sets IP interface parameters for a network adapter.''),
    (''getipinterface'',
      ''Retrieves IP interface parameters for a network adapter.''),
    (''getipv6statistics'',
      ''Retrieves IPv6 statistics for the local system.''),
    (''createipforwardentry'',
      ''Creates a new entry in the IP routing table.''),
    (''deleteipforwardentry'',
      ''Deletes an entry from the IP routing table.''),
    (''setipforwardentry'',
      ''Modifies an existing entry in the IP routing table.''),
    (''getipforwardentry'',
      ''Retrieves information for a specific IP routing table entry.''),
    (''getadapterinfo'',
      ''Retrieves adapter information for the local system.''),
    (''convertipv4mask'',
      ''Converts an IPv4 subnet mask to its prefix length.''),
    (''getdnsservers'',
      ''Retrieves DNS server addresses for a network adapter.''),
    (''setdnsservers'',
      ''Sets DNS server addresses for a network adapter.''),
    (''getwin32ipforwardtable'',
      ''Retrieves the IP routing table in Win32 format.''),
    (''setipaddr'',
      ''Sets the IP address for a network adapter.''),
    (''getipaddr'',
      ''Retrieves the IP address for a network adapter.''),
    (''renewiplease'',
      ''Renews the IP lease for a network adapter.'')]"

definition dll_api_literal :: "(string \<times> dll_info) list" where
  "dll_api_literal = [
    (''kernel32.dll'',
      \<lparr>explanation = ''Provides core system functions such as memory management, process/thread creation, file I/O, and synchronization.'',
       apis = kernel32_dll_apis\<rparr>),
    (''user32.dll'',
      \<lparr>explanation = ''Handles the Windows user interface including window management, message dispatching, and user input.'',
       apis = user32_dll_apis\<rparr>),
    (''advapi32.dll'',
      \<lparr>explanation = ''Offers functions for security, registry access, and service management.'',
       apis = advapi32_dll_apis\<rparr>),
    (''ntdll.dll'',
      \<lparr>explanation = ''Contains low-level NT kernel routines and system call wrappers.'',
       apis = ntdll_dll_apis\<rparr>),
    (''ws2_32.dll'',
      \<lparr>explanation = ''Implements the Windows Sockets API for network communications.'',
       apis = ws2_32_dll_apis\<rparr>),
    (''wininet.dll'',
      \<lparr>explanation = ''Provides high-level Internet protocols for web operations.'',
       apis = wininet_dll_apis\<rparr>),
    (''ole32.dll'',
      \<lparr>explanation = ''Enables COM object creation, activation, and OLE functionality.'',
       apis = ole32_dll_apis\<rparr>),
    (''oleaut32.dll'',
      \<lparr>explanation = ''Supports OLE Automation by handling VARIANTs, BSTRs, and COM interop.'',
       apis = oleaut32_dll_apis\<rparr>),
    (''shell32.dll'',
      \<lparr>explanation = ''Contains Windows Shell routines for file operations and desktop management.'',
       apis = shell32_dll_apis\<rparr>),
    (''comdlg32.dll'',
      \<lparr>explanation = ''Implements common dialog box functions for file operations, color/font selection, and text search/replace.'',
       apis = comdlg32_dll_apis\<rparr>),
    (''gdi32.dll'',
      \<lparr>explanation = ''Handles graphics operations, drawing, and font rendering.'',
       apis = gdi32_dll_apis\<rparr>),
    (''comctl32.dll'',
      \<lparr>explanation = ''Provides common controls for Windows applications such as toolbars, status bars, and list views.'',
       apis = comctl32_dll_apis\<rparr>),
    (''crypt32.dll'',
      \<lparr>explanation = ''Offers cryptographic services including certificate management, encryption, and decryption.'',
       apis = crypt32_dll_apis\<rparr>),
    (''shlwapi.dll'',
      \<lparr>explanation = ''Provides utility functions for path manipulation, registry access, and string handling.'',
       apis = shlwapi_dll_apis\<rparr>),
    (''imm32.dll'',
      \<lparr>explanation = ''Manages input method editors (IMEs) for processing complex character input.'',
       apis = imm32_dll_apis\<rparr>),
    (''msvcrt.dll'',
      \<lparr>explanation = ''The Microsoft C Runtime Library providing standard C functions.'',
       apis = msvcrt_dll_apis\<rparr>),
    (''version.dll'',
      \<lparr>explanation = ''Retrieves version information from files for version checking.'',
       apis = version_dll_apis\<rparr>),
    (''psapi.dll'',
      \<lparr>explanation = ''Provides process status functions for enumerating processes and modules.'',
       apis = psapi_dll_apis\<rparr>),
    (''setupapi.dll'',
      \<lparr>explanation = ''Supports device installation and configuration.'',
       apis = setupapi_dll_apis\<rparr>),
    (''iphlpapi.dll'',
      \<lparr>explanation = ''Offers helper functions for IP configuration and network diagnostics.'',
       apis = iphlpapi_dll_apis\<rparr>)]"

definition dangerous_functions :: "string list" where
  "dangerous_functions = [
    ''createremotethread'',
    ''writeprocessmemory'',
    ''virtualalloc'',
    ''setunhandledexceptionfilter'',
    ''regcreatekeyexa'',
    ''regcreatekeyexw'',
    ''regsetvalueexa'',
    ''getprocaddress'',
    ''loadlibrary'',
    ''internetconnecta'',
    ''httpsendrequesta'',
    ''httpendrequesta'',
    ''cryptencrypt'',
    ''cryptdecrypt'']"

text \<open>The module-level loop \<^verbatim>\<open>for dll in dll_api_explanations.values(): extend_apis(dll, target=100)\<close>.\<close>

definition dll_api_explanations :: "(string, dll_info) dict" where
  "dll_api_explanations = map (\<lambda>(dll, info). (dll, extend_apis info 100)) dll_api_literal"

subsection \<open>The import extractor\<close>

text \<open>What the script reads of LIEF's objects: an import entry has a name (empty for an
  import by ordinal) and an ordinal; an import has the DLL name and its entries.
  \<^verbatim>\<open>lief.parse\<close> returns \<^verbatim>\<open>None\<close>, a binary of another format or a PE binary, or raises.\<close>

record import_entry =
  entry_name :: string
  entry_ordinal :: nat

record pe_import =
  import_name :: string
  import_entries :: "import_entry list"

datatype lief_result = NoBinary | OtherFormat | PE_Binary "pe_import list" | ParseRaised string

datatype exn = ValueError string | LiefError string | EOFError | OSError string

text \<open>\<^verbatim>\<open>entry.name if entry.name else f"Ordinal_{entry.ordinal}"\<close>\<close>

definition func_of :: "import_entry \<Rightarrow> string" where
  "func_of entry =
     (if entry_name entry \<noteq> [] then entry_name entry
      else ''Ordinal_'' @ str_of_nat (entry_ordinal entry))"

text \<open>\<^verbatim>\<open>imp.name or "UNKNOWN_DLL"\<close>\<close>

definition dll_name_of :: "pe_import \<Rightarrow> string" where
  "dll_name_of imp = (if import_name imp \<noteq> [] then import_name imp else ''UNKNOWN_DLL'')"

text \<open>One round of the loop over \<^verbatim>\<open>binary.imports\<close>: the key is created with an empty list
  when it is new, then every entry of the import is appended to the key's list.\<close>

definition add_import :: "(string, string list) dict \<Rightarrow> pe_import \<Rightarrow> (string, string list) dict" where
  "add_import imports_by_dll imp =
     (let dll_name = dll_name_of imp;
          d = (if dll_name \<notin> set (map fst imports_by_dll)
               then imports_by_dll @ [(dll_name, [])] else imports_by_dll)
      in foldl (\<lambda>acc entry. AList.map_entry dll_name (\<lambda>fs. fs @ [func_of entry]) acc)
           d (import_entries imp))"

definition collect_imports :: "pe_import list \<Rightarrow> (string, string list) dict" where
  "collect_imports imports = foldl add_import [] imports"

text \<open>The two sorting steps. \<^verbatim>\<open>list.sort\<close> and \<^verbatim>\<open>sorted\<close> are stable, as \<^const>\<open>sort_key\<close> is.
  The lookup \<^verbatim>\<open>imports_by_dll[dll]\<close> is of a key of the same dictionary, so it cannot fail.\<close>

definition sort_imports :: "(string, string list) dict \<Rightarrow> (string, string list) dict" where
  "sort_imports imports_by_dll =
     (let d = map (\<lambda>(dll, fs). (dll, sort_key lower fs)) imports_by_dll
      in map (\<lambda>dll. (dll, case map_of d dll of Some fs \<Rightarrow> fs | None \<Rightarrow> []))
           (sort_key lower (map fst d)))"

definition extract_and_sort_imports ::
  "(string \<Rightarrow> lief_result) \<Rightarrow> string \<Rightarrow> exn + (string, string list) dict" where
  "extract_and_sort_imports lief_parse file_path =
     (case lief_parse file_path of
        ParseRaised msg \<Rightarrow> Inl (LiefError msg)
      | NoBinary \<Rightarrow> Inl (ValueError ''Not a valid PE file.'')
      | OtherFormat \<Rightarrow> Inl (ValueError ''Not a valid PE file.'')
      | PE_Binary imports \<Rightarrow> Inr (sort_imports (collect_imports imports)))"

subsection \<open>The text renderer\<close>

text \<open>The inner loop over the functions of one DLL. \<open>printed\<close> counts the lines that carry
  an explanation; the loop is left when it reaches 20.\<close>

fun text_api_lines :: "(string, string) dict \<Rightarrow> nat \<Rightarrow> string list \<Rightarrow> string list" where
  "text_api_lines dll_apis printed [] = []"
| "text_api_lines dll_apis printed (api # rest) =
     (case map_of dll_apis (lower api) of
        Some expl \<Rightarrow>
          (''    '' @ api @ '': '' @ expl) #
          (if printed + 1 \<ge> 20 then [] else text_api_lines dll_apis (printed + 1) rest)
      | None \<Rightarrow>
          (''    '' @ api) #
          (if printed \<ge> 20 then [] else text_api_lines dll_apis printed rest))"

definition text_dll_block :: "(string, dll_info) dict \<Rightarrow> string \<times> string list \<Rightarrow> string list" where
  "text_dll_block nested_dict item =
     (case item of (dll, functions) \<Rightarrow>
        (case map_of nested_dict (lower dll) of
           None \<Rightarrow> []
         | Some info \<Rightarrow>
             [dll @ '':'', ''    DLL Explanation: '' @ explanation info]
             @ text_api_lines (apis info) 0 (sort_key lower functions)
             @ ['''']))"

text \<open>The explanation of a dangerous function: the first DLL of the catalog that knows it.\<close>

fun find_explanation :: "(string, dll_info) dict \<Rightarrow> string \<Rightarrow> string option" where
  "find_explanation [] func = None"
| "find_explanation ((dll, dll_data) # others) func =
     (case map_of (apis dll_data) (lower func) of
        Some e \<Rightarrow> Some e
      | None \<Rightarrow> find_explanation others func)"

text \<open>\<^verbatim>\<open>if explanation and explanation != DEFAULT_EXPLANATION\<close>: found, not empty, not the default.\<close>

definition shown_explanation :: "(string, dll_info) dict \<Rightarrow> string \<Rightarrow> string option" where
  "shown_explanation nested_dict func =
     (case find_explanation nested_dict func of
        None \<Rightarrow> None
      | Some e \<Rightarrow> if e \<noteq> [] \<and> e \<noteq> DEFAULT_EXPLANATION then Some e else None)"

definition text_dangerous_line :: "(string, dll_info) dict \<Rightarrow> string \<Rightarrow> string" where
  "text_dangerous_line nested_dict func =
     (case shown_explanation nested_dict func of
        Some e \<Rightarrow> ''    '' @ func @ '': '' @ e
      | None \<Rightarrow> ''    '' @ func)"

definition text_dangerous_section :: "(string, dll_info) dict \<Rightarrow> string list \<Rightarrow> string list" where
  "text_dangerous_section nested_dict dangerous_set =
     (if dangerous_set \<noteq> []
      then ''Most Dangerous/Suspicious Functions:'' #
           map (text_dangerous_line nested_dict) (sort_key lower dangerous_set)
      else [])"

definition text_lines ::
  "(string, string list) dict \<Rightarrow> (string, dll_info) dict \<Rightarrow> string list \<Rightarrow> string list" where
  "text_lines sorted_imports nested_dict dangerous_set =
     concat (map (text_dll_block nested_dict) sorted_imports)
     @ text_dangerous_section nested_dict dangerous_set"

definition generate_text_output ::
  "(string, string list) dict \<Rightarrow> (string, dll_info) dict \<Rightarrow> string list \<Rightarrow> string" where
  "generate_text_output sorted_imports nested_dict dangerous_set =
     join_lines (text_lines sorted_imports nested_dict dangerous_set)"

subsection \<open>The HTML renderer\<close>

definition html_head :: "string list" where
  "html_head = [
     ''<html>'',
     ''<head>'',
     ''<title>PE Import Analysis</title>'',
     ''<style>'',
     ''table { border-collapse: collapse; width: 90%; margin: 10px; }'',
     ''th, td { border: 1px solid #ddd; padding: 8px; }'',
     ''th { background-color: #f2f2f2; }'',
     ''</style>'',
     ''</head>'',
     ''<body>'',
     ''<h1>PE Import Analysis</h1>'']"

definition html_row :: "string \<Rightarrow> string \<Rightarrow> string" where
  "html_row name expl = ''<tr><td>'' @ name @ ''</td><td>'' @ expl @ ''</td></tr>''"

fun html_api_rows :: "(string, string) dict \<Rightarrow> nat \<Rightarrow> string list \<Rightarrow> string list" where
  "html_api_rows dll_apis printed [] = []"
| "html_api_rows dll_apis printed (api # rest) =
     (case map_of dll_apis (lower api) of
        Some expl \<Rightarrow>
          html_row (html_escape api) (html_escape expl) #
          (if printed + 1 \<ge> 20 then [] else html_api_rows dll_apis (printed + 1) rest)
      | None \<Rightarrow>
          html_row (html_escape api) [] #
          (if printed \<ge> 20 then [] else html_api_rows dll_apis printed rest))"

definition html_dll_block :: "(string, dll_info) dict \<Rightarrow> string \<times> string list \<Rightarrow> string list" where
  "html_dll_block nested_dict item =
     (case item of (dll, functions) \<Rightarrow>
        (case map_of nested_dict (lower dll) of
           None \<Rightarrow> []
         | Some info \<Rightarrow>
             [''<h2>'' @ html_escape dll @ ''</h2>'',
              ''<p><strong>DLL Explanation:</strong> '' @ html_escape (explanation info) @ ''</p>'',
              ''<table>'',
              ''<tr><th>API Function</th><th>Explanation</th></tr>'']
             @ html_api_rows (apis info) 0 (sort_key lower functions)
             @ [''</table>'']))"

definition html_dangerous_row :: "(string, dll_info) dict \<Rightarrow> string \<Rightarrow> string" where
  "html_dangerous_row nested_dict func =
     (case shown_explanation nested_dict func of
        Some e \<Rightarrow> html_row (html_escape func) (html_escape e)
      | None \<Rightarrow> html_row (html_escape func) [])"

definition html_dangerous_section :: "(string, dll_info) dict \<Rightarrow> string list \<Rightarrow> string list" where
  "html_dangerous_section nested_dict dangerous_set =
     (if dangerous_set \<noteq> []
      then [''<h2>Most Dangerous/Suspicious Functions</h2>'',
            ''<table>'',
            ''<tr><th>API Function</th><th>Explanation</th></tr>'']
           @ map (html_dangerous_row nested_dict) (sort_key lower dangerous_set)
           @ [''</table>'']
      else [])"

definition html_lines ::
  "(string, string list) dict \<Rightarrow> (string, dll_info) dict \<Rightarrow> string list \<Rightarrow> string list" where
  "html_lines sorted_imports nested_dict dangerous_set =
     html_head
     @ concat (map (html_dll_block nested_dict) sorted_imports)
     @ html_dangerous_section nested_dict dangerous_set
     @ [''</body></html>'']"

definition generate_html_output ::
  "(string, string list) dict \<Rightarrow> (string, dll_info) dict \<Rightarrow> string list \<Rightarrow> string" where
  "generate_html_output sorted_imports nested_dict dangerous_set =
     join_lines (html_lines sorted_imports nested_dict dangerous_set)"

subsection \<open>The command line\<close>

text \<open>The effects of a run, in order: a line printed, a prompt of \<^verbatim>\<open>input\<close>, the output file
  opened for writing, a string written to it.\<close>

datatype event = Print string | Prompt string | Open_w string | Write string string

text \<open>What the run gets from outside: LIEF's answer for a path, the value of
  \<^verbatim>\<open>os.path.splitext(os.path.basename(p))[0]\<close>, and for a file name the message of the
  \<^verbatim>\<open>OSError\<close> that opening it for writing raises, if it does.\<close>

record env =
  lief_parse :: "string \<Rightarrow> lief_result"
  base_name :: "string \<Rightarrow> string"
  open_error :: "string \<Rightarrow> string option"

text \<open>The set \<open>dangerous_found\<close>, in the order in which its members are first added. The script
  keeps a Python set, whose order of iteration is not fixed; the renderers sort it.\<close>

definition find_dangerous :: "(string, string list) dict \<Rightarrow> string list" where
  "find_dangerous sorted_imports =
     foldl (\<lambda>found api.
              if lower api \<in> set dangerous_functions \<and> api \<notin> set found then found @ [api]
              else found)
       [] (concat (map snd sorted_imports))"

definition is_yes :: "string \<Rightarrow> bool" where
  "is_yes answer = (lower (strip answer) = ''y'')"

definition exn_message :: "exn \<Rightarrow> string" where
  "exn_message e =
     (case e of
        ValueError m \<Rightarrow> m
      | LiefError m \<Rightarrow> m
      | EOFError \<Rightarrow> ''EOF when reading a line''
      | OSError m \<Rightarrow> m)"

text \<open>The body of the \<^verbatim>\<open>try\<close> block of \<^verbatim>\<open>main\<close>, with the lines typed by the user as a list.
  \<^verbatim>\<open>input\<close> raises \<^verbatim>\<open>EOFError\<close> when there is no line left.\<close>

definition main_try :: "env \<Rightarrow> string \<Rightarrow> string list \<Rightarrow> event list \<times> (exn + unit)" where
  "main_try e file_path stdin =
     (case extract_and_sort_imports (lief_parse e) file_path of
        Inl err \<Rightarrow> ([], Inl err)
      | Inr sorted_imports \<Rightarrow>
          let dangerous_found = find_dangerous sorted_imports;
              p1 = ''Include dangerous/suspicious functions in the output? (y/n): ''
          in case stdin of
               [] \<Rightarrow> ([Prompt p1], Inl EOFError)
             | a1 # stdin1 \<Rightarrow>
                 let include_dangerous = is_yes a1;
                     p2 = ''Save output as HTML? (y/n): ''
                 in case stdin1 of
                      [] \<Rightarrow> ([Prompt p1, Prompt p2], Inl EOFError)
                    | a2 # stdin2 \<Rightarrow>
                        let output_html = is_yes a2;
                            default_ext = (if output_html then ''.html'' else ''.txt'');
                            default_filename = base_name e file_path @ default_ext;
                            p3 = ''Enter output file name (default: '' @ default_filename @ ''): ''
                        in case stdin2 of
                             [] \<Rightarrow> ([Prompt p1, Prompt p2, Prompt p3], Inl EOFError)
                           | a3 # stdin3 \<Rightarrow>
                               let file_name = (if strip a3 \<noteq> [] then strip a3 else default_filename);
                                   dangerous_set = (if include_dangerous then dangerous_found else []);
                                   output_str =
                                     (if output_html
                                      then generate_html_output sorted_imports dll_api_explanations dangerous_set
                                      else generate_text_output sorted_imports dll_api_explanations dangerous_set)
                               in case open_error e file_name of
                                    Some msg \<Rightarrow> ([Prompt p1, Prompt p2, Prompt p3], Inl (OSError msg))
                                  | None \<Rightarrow>
                                      ([Prompt p1, Prompt p2, Prompt p3, Open_w file_name,
                                        Write file_name output_str,
                                        Print (''Output saved to '' @ file_name)], Inr ()))"

text \<open>\<^verbatim>\<open>main\<close>: the handler \<^verbatim>\<open>except Exception as e: print(f"Error: {e}")\<close> catches every
  exception of the block, prints it and lets \<^verbatim>\<open>main\<close> return.\<close>

definition main :: "env \<Rightarrow> string \<Rightarrow> string list \<Rightarrow> event list" where
  "main e file_path stdin =
     (case main_try e file_path stdin of
        (evs, Inl err) \<Rightarrow> evs @ [Print (''Error: '' @ exn_message err)]
      | (evs, Inr u) \<Rightarrow> evs)"

text \<open>The script ends with the call of \<^verbatim>\<open>main()\<close>. \<^verbatim>\<open>main\<close> returns on every path and never
  calls \<^verbatim>\<open>sys.exit\<close>, so the interpreter ends the process with status 0.\<close>

definition run_script :: "env \<Rightarrow> string \<Rightarrow> string list \<Rightarrow> event list \<times> nat" where
  "run_script e file_path stdin = (main e file_path stdin, 0)"

subsection \<open>Notions used in the statements\<close>

text \<open>All function names that the imports named \<open>dll\<close> contribute, in the order of the
  import table.\<close>

definition funcs_of_dll :: "pe_import list \<Rightarrow> string \<Rightarrow> string list" where
  "funcs_of_dll imps dll =
     concat (map (\<lambda>imp. map func_of (import_entries imp))
       (filter (\<lambda>imp. dll_name_of imp = dll) imps))"

text \<open>A small import table: Winsock with one import by ordinal and one by name.\<close>

definition sample_imports :: "pe_import list" where
  "sample_imports =
     [\<lparr>import_name = ''WS2_32.dll'',
       import_entries = [\<lparr>entry_name = [], entry_ordinal = 115\<rparr>,
                         \<lparr>entry_name = ''WSAStartup'', entry_ordinal = 0\<rparr>]\<rparr>]"

text \<open>A LIEF that gives the same answer for every path.\<close>

definition lief_of :: "lief_result \<Rightarrow> string \<Rightarrow> lief_result" where
  "lief_of r file_path = r"

text \<open>Import tables in which an entry, or a DLL name, occurs twice, and one with two DLLs.\<close>

definition repeated_entry_imports :: "pe_import list" where
  "repeated_entry_imports =
     [\<lparr>import_name = ''KERNEL32.dll'',
       import_entries = [\<lparr>entry_name = ''CreateFileA'', entry_ordinal = 0\<rparr>,
                         \<lparr>entry_name = ''CreateFileA'', entry_ordinal = 0\<rparr>]\<rparr>]"

definition repeated_dll_imports :: "pe_import list" where
  "repeated_dll_imports =
     [\<lparr>import_name = ''KERNEL32.dll'',
       import_entries = [\<lparr>entry_name = ''ReadFile'', entry_ordinal = 0\<rparr>]\<rparr>,
      \<lparr>import_name = ''KERNEL32.dll'',
       import_entries = [\<lparr>entry_name = ''CreateFileA'', entry_ordinal = 0\<rparr>]\<rparr>]"

definition two_dll_imports :: "pe_import list" where
  "two_dll_imports =
     [\<lparr>import_name = ''user32.dll'',
       import_entries = [\<lparr>entry_name = ''MessageBoxA'', entry_ordinal = 0\<rparr>]\<rparr>,
      \<lparr>import_name = ''KERNEL32.dll'',
       import_entries = [\<lparr>entry_name = ''ReadFile'', entry_ordinal = 0\<rparr>,
                         \<lparr>entry_name = ''CreateFileA'', entry_ordinal = 0\<rparr>]\<rparr>]"

text \<open>The line, or the table row, that a renderer writes for one function of a DLL, and whether
  the DLL's part of the catalog describes the function.\<close>

definition text_api_line :: "(string, string) dict \<Rightarrow> string \<Rightarrow> string" where
  "text_api_line dll_apis api =
     (case map_of dll_apis (lower api) of
        Some expl \<Rightarrow> ''    '' @ api @ '': '' @ expl
      | None \<Rightarrow> ''    '' @ api)"

definition html_api_row :: "(string, string) dict \<Rightarrow> string \<Rightarrow> string" where
  "html_api_row dll_apis api =
     (case map_of dll_apis (lower api) of
        Some expl \<Rightarrow> html_row (html_escape api) (html_escape expl)
      | None \<Rightarrow> html_row (html_escape api) [])"

definition described :: "(string, string) dict \<Rightarrow> string \<Rightarrow> bool" where
  "described dll_apis api = (map_of dll_apis (lower api) \<noteq> None)"

text \<open>The table of a binary that imports 21 functions of Winsock by ordinal, as the extractor
  returns it, and the catalog's entry for Winsock.\<close>

definition ordinal_table :: "(string, string list) dict" where
  "ordinal_table =
     [(''WS2_32.dll'',
       [''Ordinal_1'', ''Ordinal_10'', ''Ordinal_11'', ''Ordinal_12'', ''Ordinal_13'',
        ''Ordinal_14'', ''Ordinal_15'', ''Ordinal_16'', ''Ordinal_17'', ''Ordinal_18'',
        ''Ordinal_19'', ''Ordinal_2'', ''Ordinal_20'', ''Ordinal_21'', ''Ordinal_3'',
        ''Ordinal_4'', ''Ordinal_5'', ''Ordinal_6'', ''Ordinal_7'', ''Ordinal_8'',
        ''Ordinal_9''])]"

definition ws2_32_info :: dll_info where
  "ws2_32_info = extend_apis
     \<lparr>explanation = ''Implements the Windows Sockets API for network communications.'',
      apis = ws2_32_dll_apis\<rparr> 100"

text \<open>The markup of a line of HTML: the tags, that is the characters from an opening angle
  bracket to the closing one; the text between the tags is dropped. The second definition
  lists the markup of every kind of line that the HTML renderer writes.\<close>

fun markup :: "bool \<Rightarrow> string \<Rightarrow> string" where
  "markup inside [] = []"
| "markup inside (c # cs) =
     (if c = CHR ''<'' then c # markup True cs
      else if c = CHR ''>'' then c # markup False cs
      else if inside then c # markup inside cs
      else markup inside cs)"

definition html_skeletons :: "string list" where
  "html_skeletons =
     [''<html>'', ''<head>'', ''<title></title>'', ''<style>'', [], ''</style>'', ''</head>'',
      ''<body>'', ''<h1></h1>'', ''<h2></h2>'', ''<p><strong></strong></p>'', ''<table>'',
      ''<tr><th></th><th></th></tr>'', ''<tr><td></td><td></td></tr>'', ''</table>'',
      ''</body></html>'']"

text \<open>Every ampersand of a string starts one of the five entities that \<^verbatim>\<open>html.escape\<close>
  writes.\<close>

definition entity_at :: "string \<Rightarrow> bool" where
  "entity_at s = list_ex (\<lambda>e. take (length e) s = e) [''&amp;'', ''&lt;'', ''&gt;'', ''&quot;'', ''&#x27;'']"

fun ampersands_escaped :: "string \<Rightarrow> bool" where
  "ampersands_escaped [] = True"
| "ampersands_escaped (c # cs) = ((c \<noteq> CHR ''&'' \<or> entity_at (c # cs)) \<and> ampersands_escaped cs)"

text \<open>A table with a function name made of markup characters.\<close>

definition hostile_table :: "(string, string list) dict" where
  "hostile_table = [(''WS2_32.dll'', [''<b>&''])]"


text \<open>The events that touch the output file, and an environment in which every file can be
  opened and the base name of a path is its part before the first dot.\<close>

definition is_file_event :: "event \<Rightarrow> bool" where
  "is_file_event ev = (case ev of Open_w f \<Rightarrow> True | Write f c \<Rightarrow> True | _ \<Rightarrow> False)"

definition plain_env :: "lief_result \<Rightarrow> env" where
  "plain_env r = \<lparr>lief_parse = lief_of r, base_name = (\<lambda>p. takeWhile (\<lambda>c. c \<noteq> CHR ''.'') p),
                  open_error = (\<lambda>f. None)\<rparr>"

section \<open>Properties of the extractor\<close>

subsection \<open>What the loop over the imports builds\<close>

lemma map_entry_twice: "AList.map_entry k f (AList.map_entry k g d) = AList.map_entry k (f \<circ> g) d"
  by (induction d) auto

lemma foldl_map_entry_append:
  "foldl (\<lambda>acc e. AList.map_entry k (\<lambda>fs. fs @ [g e]) acc) d es = AList.map_entry k (\<lambda>fs. fs @ map g es) d"
proof (induction es arbitrary: d)
  case Nil
  have "AList.map_entry k (\<lambda>fs. fs) d = d" by (induction d) auto
  then show ?case by simp
next
  case (Cons e es)
  have "(\<lambda>fs. fs @ map g es) \<circ> (\<lambda>fs. fs @ [g e]) = (\<lambda>fs. fs @ g e # map g es)"
    by (simp add: fun_eq_iff)
  with Cons show ?case by (simp add: map_entry_twice)
qed

lemma add_import_eq:
  "add_import d imp =
     AList.map_entry (dll_name_of imp) (\<lambda>fs. fs @ map func_of (import_entries imp))
       (if dll_name_of imp \<in> set (map fst d) then d else d @ [(dll_name_of imp, [])])"
  by (simp add: add_import_def Let_def foldl_map_entry_append)

lemma keys_map_entry: "map fst (AList.map_entry k f d) = map fst d"
  by (induction d) auto

lemma keys_add_import:
  "map fst (add_import d imp) =
     (if dll_name_of imp \<in> set (map fst d) then map fst d else map fst d @ [dll_name_of imp])"
  by (simp add: add_import_eq keys_map_entry)

lemma map_of_add_import:
  "map_of (add_import d imp) k =
     (if k = dll_name_of imp
      then Some ((case map_of d k of Some fs \<Rightarrow> fs | None \<Rightarrow> []) @ map func_of (import_entries imp))
      else map_of d k)"
proof (cases "dll_name_of imp \<in> set (map fst d)")
  case True
  then obtain fs where "map_of d (dll_name_of imp) = Some fs"
    by (metis map_of_eq_None_iff not_Some_eq set_map)
  with True show ?thesis by (simp add: add_import_eq map_of_map_entry)
next
  case False
  then have "map_of d (dll_name_of imp) = None"
    by (simp add: map_of_eq_None_iff)
  with False show ?thesis
    by (simp add: add_import_eq map_of_map_entry map_add_def split: option.splits)
qed

lemma collect_snoc: "collect_imports (imps @ [imp]) = add_import (collect_imports imps) imp"
  by (simp add: collect_imports_def)

lemma keys_collect_set: "set (map fst (collect_imports imps)) = dll_name_of ` set imps"
proof (induction imps rule: rev_induct)
  case Nil show ?case by (simp add: collect_imports_def)
next
  case (snoc imp imps)
  then show ?case by (auto simp: collect_snoc keys_add_import)
qed

lemma keys_collect_distinct: "distinct (map fst (collect_imports imps))"
proof (induction imps rule: rev_induct)
  case Nil show ?case by (simp add: collect_imports_def)
next
  case (snoc imp imps)
  then show ?case by (auto simp: collect_snoc keys_add_import)
qed

lemma funcs_of_dll_absent: "dll \<notin> dll_name_of ` set imps \<Longrightarrow> funcs_of_dll imps dll = []"
  by (induction imps) (auto simp: funcs_of_dll_def)

lemma funcs_of_dll_snoc:
  "funcs_of_dll (imps @ [imp]) dll =
     funcs_of_dll imps dll @ (if dll_name_of imp = dll then map func_of (import_entries imp) else [])"
  by (simp add: funcs_of_dll_def)

lemma map_of_collect:
  "map_of (collect_imports imps) dll =
     (if dll \<in> dll_name_of ` set imps then Some (funcs_of_dll imps dll) else None)"
proof (induction imps rule: rev_induct)
  case Nil show ?case by (simp add: collect_imports_def)
next
  case (snoc imp imps)
  show ?case
  proof (cases "dll = dll_name_of imp")
    case True
    then show ?thesis
      using snoc by (simp add: collect_snoc map_of_add_import funcs_of_dll_snoc funcs_of_dll_absent)
  next
    case False
    then show ?thesis
      using snoc by (simp add: collect_snoc map_of_add_import funcs_of_dll_snoc)
  qed
qed

lemma keys_sort_imports: "map fst (sort_imports d) = sort_key lower (map fst d)"
  by (simp add: sort_imports_def Let_def comp_def case_prod_unfold)

lemma map_of_sorted_values:
  "map_of (map (\<lambda>(dll, fs). (dll, sort_key lower fs)) d) k = map_option (sort_key lower) (map_of d k)"
  by (induction d) auto

lemma keys_sorted_values: "map fst (map (\<lambda>(dll, fs). (dll, sort_key lower fs)) d) = map fst d"
  by (induction d) auto

lemma sort_collect_eq:
  "sort_imports (collect_imports imps) =
     map (\<lambda>dll. (dll, sort_key lower (funcs_of_dll imps dll)))
       (sort_key lower (map fst (collect_imports imps)))"
proof -
  have "\<And>dll. dll \<in> set (map fst (collect_imports imps)) \<Longrightarrow>
          map_of (collect_imports imps) dll = Some (funcs_of_dll imps dll)"
    using keys_collect_set [of imps] by (simp add: map_of_collect)
  then show ?thesis
    unfolding sort_imports_def Let_def keys_sorted_values map_of_sorted_values
    by (intro map_cong) simp_all
qed

lemma table_keys_length: "length (sort_imports (collect_imports imps)) = card (dll_name_of ` set imps)"
proof -
  have "length (sort_imports (collect_imports imps)) = length (map fst (collect_imports imps))"
    by (simp add: sort_collect_eq)
  also have "\<dots> = card (set (map fst (collect_imports imps)))"
    using distinct_card [OF keys_collect_distinct [of imps]] by simp
  finally show ?thesis by (simp only: keys_collect_set)
qed

lemma table_member:
  "(dll, fs) \<in> set (sort_imports (collect_imports imps)) \<longleftrightarrow>
     dll \<in> dll_name_of ` set imps \<and> fs = sort_key lower (funcs_of_dll imps dll)"
  using keys_collect_set [of imps] by (auto simp: sort_collect_eq)

text \<open>The equations that evaluate the extractor on a concrete import table.\<close>

lemmas extractor_eval =
  extract_and_sort_imports_def collect_imports_def add_import_def dll_name_of_def func_of_def
  sort_imports_def lower_def lower_char_def str_of_nat.simps digit_char_def lief_of_def

subsection \<open>Inputs that are not PE images\<close>

text \<open>
  Claim C7. When LIEF does not return a PE binary for the path, \<open>extract_and_sort_imports\<close>
  raises and returns no table, not even a partial one. When LIEF returns nothing or a binary
  of another format, the exception is the \<open>ValueError\<close> with the message
  "Not a valid PE file."; when LIEF itself raises, that exception is passed on.
\<close>

theorem extractor_rejects_non_pe:
  assumes "\<forall>imps. parse file_path \<noteq> PE_Binary imps"
  shows "(\<exists>err. extract_and_sort_imports parse file_path = Inl err) \<and>
         (parse file_path = NoBinary \<or> parse file_path = OtherFormat \<longrightarrow>
            extract_and_sort_imports parse file_path = Inl (ValueError ''Not a valid PE file.'')) \<and>
         (\<forall>msg. parse file_path = ParseRaised msg \<longrightarrow>
            extract_and_sort_imports parse file_path = Inl (LiefError msg))"
  using assms by (cases "parse file_path") (simp_all add: extract_and_sort_imports_def)

theorem extractor_rejects_non_pe_witness:
  "lief_of NoBinary ''notes.txt'' = NoBinary \<and>
   extract_and_sort_imports (lief_of NoBinary) ''notes.txt'' = Inl (ValueError ''Not a valid PE file.'') \<and>
   lief_of (ParseRaised ''bad file'') ''notes.txt'' = ParseRaised ''bad file'' \<and>
   extract_and_sort_imports (lief_of (ParseRaised ''bad file'')) ''notes.txt'' = Inl (LiefError ''bad file'')"
  using extractor_rejects_non_pe [of "lief_of NoBinary" "''notes.txt''"]
        extractor_rejects_non_pe [of "lief_of (ParseRaised ''bad file'')" "''notes.txt''"]
  by (simp add: lief_of_def)

subsection \<open>Imports by ordinal\<close>

text \<open>
  Claim C5. Every function name in the returned table comes from an entry of an import of
  that DLL and is the entry's name when it has one, and otherwise "Ordinal_" followed by
  the decimal ordinal; and every entry of every import is in the table in that form.
\<close>

theorem ordinal_placeholder:
  assumes "parse file_path = PE_Binary imps"
  shows "\<exists>tbl. extract_and_sort_imports parse file_path = Inr tbl \<and>
           (\<forall>(dll, fs) \<in> set tbl. \<forall>f \<in> set fs.
              \<exists>imp \<in> set imps. \<exists>e \<in> set (import_entries imp).
                dll_name_of imp = dll \<and>
                f = (if entry_name e \<noteq> [] then entry_name e
                     else ''Ordinal_'' @ str_of_nat (entry_ordinal e))) \<and>
           (\<forall>imp \<in> set imps. \<forall>e \<in> set (import_entries imp).
              \<exists>fs. (dll_name_of imp, fs) \<in> set tbl \<and>
                (if entry_name e \<noteq> [] then entry_name e
                 else ''Ordinal_'' @ str_of_nat (entry_ordinal e)) \<in> set fs)"
proof -
  let ?tbl = "sort_imports (collect_imports imps)"
  have res: "extract_and_sort_imports parse file_path = Inr ?tbl"
    using assms by (simp add: extract_and_sort_imports_def)
  have a: "\<exists>imp \<in> set imps. \<exists>e \<in> set (import_entries imp). dll_name_of imp = dll \<and>
             f = (if entry_name e \<noteq> [] then entry_name e
                  else ''Ordinal_'' @ str_of_nat (entry_ordinal e))"
    if "(dll, fs) \<in> set ?tbl" "f \<in> set fs" for dll fs f
  proof -
    from that have "f \<in> set (funcs_of_dll imps dll)"
      by (simp add: table_member)
    then show ?thesis
      by (auto simp: funcs_of_dll_def func_of_def)
  qed
  have b: "\<exists>fs. (dll_name_of imp, fs) \<in> set ?tbl \<and>
             (if entry_name e \<noteq> [] then entry_name e
              else ''Ordinal_'' @ str_of_nat (entry_ordinal e)) \<in> set fs"
    if "imp \<in> set imps" "e \<in> set (import_entries imp)" for imp e
  proof -
    from that have "func_of e \<in> set (funcs_of_dll imps (dll_name_of imp))"
      by (auto simp: funcs_of_dll_def)
    with that(1) show ?thesis
      by (auto simp: table_member func_of_def)
  qed
  from res a b show ?thesis by blast
qed

theorem ordinal_placeholder_witness:
  "lief_of (PE_Binary sample_imports) ''a.exe'' = PE_Binary sample_imports \<and>
   extract_and_sort_imports (lief_of (PE_Binary sample_imports)) ''a.exe''
     = Inr [(''WS2_32.dll'', [''Ordinal_115'', ''WSAStartup''])]"
  using ordinal_placeholder [of "lief_of (PE_Binary sample_imports)" "''a.exe''" sample_imports]
  by (simp add: extractor_eval sample_imports_def)

subsection \<open>Repeated entries\<close>

text \<open>
  Claim C2, as stated: the function list of a library has no duplicates. The script never
  removes one: an import of \<open>KERNEL32.dll\<close> that lists \<open>CreateFileA\<close> twice gives a list with
  both.
\<close>

theorem duplicates_kept_counterexample:
  "extract_and_sort_imports (lief_of (PE_Binary repeated_entry_imports)) ''a.exe''
     = Inr [(''KERNEL32.dll'', [''CreateFileA'', ''CreateFileA''])] \<and>
   \<not> distinct [''CreateFileA'', ''CreateFileA'']"
  by (simp add: extractor_eval repeated_entry_imports_def)

text \<open>
  Claim C2, amended. The function list returned for a library holds the names of all entries
  of all imports of that name, one per entry and as often as they occur: it has the same
  elements with the same multiplicities, and the same length.
\<close>

theorem all_entries_kept:
  assumes "parse file_path = PE_Binary imps"
  shows "\<exists>tbl. extract_and_sort_imports parse file_path = Inr tbl \<and>
           (\<forall>(dll, fs) \<in> set tbl.
              mset fs = mset (funcs_of_dll imps dll) \<and>
              length fs = length (funcs_of_dll imps dll))"
proof -
  have "extract_and_sort_imports parse file_path = Inr (sort_imports (collect_imports imps))"
    using assms by (simp add: extract_and_sort_imports_def)
  moreover have "mset fs = mset (funcs_of_dll imps dll) \<and> length fs = length (funcs_of_dll imps dll)"
    if "(dll, fs) \<in> set (sort_imports (collect_imports imps))" for dll fs
    using that by (simp add: table_member)
  ultimately show ?thesis by blast
qed

theorem all_entries_kept_witness:
  "lief_of (PE_Binary repeated_entry_imports) ''a.exe'' = PE_Binary repeated_entry_imports \<and>
   extract_and_sort_imports (lief_of (PE_Binary repeated_entry_imports)) ''a.exe''
     = Inr [(''KERNEL32.dll'', [''CreateFileA'', ''CreateFileA''])] \<and>
   funcs_of_dll repeated_entry_imports ''KERNEL32.dll'' = [''CreateFileA'', ''CreateFileA'']"
  using all_entries_kept [of "lief_of (PE_Binary repeated_entry_imports)" "''a.exe''" repeated_entry_imports]
  by (simp add: extractor_eval repeated_entry_imports_def funcs_of_dll_def)

subsection \<open>Number and order of the keys\<close>

text \<open>
  Claim C4, as stated: N import libraries give N keys. Two imports with the same name share
  a key, so a table of two imports can give one key.
\<close>

theorem key_count_counterexample:
  "length repeated_dll_imports = 2 \<and>
   extract_and_sort_imports (lief_of (PE_Binary repeated_dll_imports)) ''a.exe''
     = Inr [(''KERNEL32.dll'', [''CreateFileA'', ''ReadFile''])]"
  by (simp add: extractor_eval repeated_dll_imports_def)

text \<open>
  Claim C4, amended. The number of keys is the number of different library names among the
  imports (an empty name counting as \<open>UNKNOWN_DLL\<close>), which is the number of imports when their
  names differ from one another. The keys are distinct and sorted by their lower-cased form,
  and so is every function list.
\<close>

theorem keys_and_lists_sorted:
  assumes "parse file_path = PE_Binary imps"
  shows "\<exists>tbl. extract_and_sort_imports parse file_path = Inr tbl \<and>
           length tbl = card (dll_name_of ` set imps) \<and>
           (distinct (map dll_name_of imps) \<longrightarrow> length tbl = length imps) \<and>
           distinct (map fst tbl) \<and>
           sorted (map lower (map fst tbl)) \<and>
           (\<forall>(dll, fs) \<in> set tbl. sorted (map lower fs))"
proof -
  let ?tbl = "sort_imports (collect_imports imps)"
  have res: "extract_and_sort_imports parse file_path = Inr ?tbl"
    using assms by (simp add: extract_and_sort_imports_def)
  have n: "length ?tbl = card (dll_name_of ` set imps)"
    by (rule table_keys_length)
  have m: "length ?tbl = length imps" if "distinct (map dll_name_of imps)"
    using that distinct_card [of "map dll_name_of imps"] by (simp add: n)
  have d: "distinct (map fst ?tbl)"
    by (simp add: keys_sort_imports keys_collect_distinct)
  have s: "sorted (map lower (map fst ?tbl))"
    by (simp add: keys_sort_imports)
  have f: "sorted (map lower fs)" if "(dll, fs) \<in> set ?tbl" for dll fs
    using that by (simp add: table_member)
  from res n m d s f show ?thesis by blast
qed

theorem keys_and_lists_sorted_witness:
  "lief_of (PE_Binary two_dll_imports) ''a.exe'' = PE_Binary two_dll_imports \<and>
   distinct (map dll_name_of two_dll_imports) \<and>
   length two_dll_imports = 2 \<and>
   extract_and_sort_imports (lief_of (PE_Binary two_dll_imports)) ''a.exe''
     = Inr [(''KERNEL32.dll'', [''CreateFileA'', ''ReadFile'']), (''user32.dll'', [''MessageBoxA''])]"
  using keys_and_lists_sorted [of "lief_of (PE_Binary two_dll_imports)" "''a.exe''" two_dll_imports]
  by (simp add: extractor_eval two_dll_imports_def)

section \<open>Properties of the renderers\<close>

subsection \<open>Libraries that the catalog does not know\<close>

lemma text_block_unknown:
  "lower dll \<notin> set (map fst nested_dict) \<Longrightarrow> text_dll_block nested_dict (dll, fs) = []"
  by (simp add: text_dll_block_def map_of_eq_None_iff [THEN iffD2])

lemma html_block_unknown:
  "lower dll \<notin> set (map fst nested_dict) \<Longrightarrow> html_dll_block nested_dict (dll, fs) = []"
  by (simp add: html_dll_block_def map_of_eq_None_iff [THEN iffD2])

text \<open>
  Claim C8. A library whose lower-cased name is not a key of the catalog contributes nothing
  to the body of the report, in text and in HTML: its block is empty, and the report of a
  table that holds the library anywhere is the report of the table without it.
\<close>

theorem unknown_library_omitted:
  assumes "lower dll \<notin> set (map fst nested_dict)"
  shows "text_dll_block nested_dict (dll, fs) = [] \<and>
         html_dll_block nested_dict (dll, fs) = [] \<and>
         text_lines (before @ (dll, fs) # after) nested_dict dangerous_set
           = text_lines (before @ after) nested_dict dangerous_set \<and>
         html_lines (before @ (dll, fs) # after) nested_dict dangerous_set
           = html_lines (before @ after) nested_dict dangerous_set"
  using assms
  by (simp add: text_lines_def html_lines_def text_block_unknown html_block_unknown)

theorem unknown_library_omitted_witness:
  "lower ''VCRUNTIME140.dll'' \<notin> set (map fst dll_api_explanations) \<and>
   text_lines [(''VCRUNTIME140.dll'', [''memcpy''])] dll_api_explanations [] = [] \<and>
   html_lines [(''VCRUNTIME140.dll'', [''memcpy''])] dll_api_explanations []
     = html_head @ [''</body></html>'']"
proof -
  have absent: "lower ''VCRUNTIME140.dll'' \<notin> set (map fst dll_api_explanations)"
    by (simp add: dll_api_explanations_def dll_api_literal_def lower_def lower_char_def)
  from unknown_library_omitted [OF absent, of "[''memcpy'']" "[]" "[]" "[]"] absent
  show ?thesis
    by (simp add: text_lines_def html_lines_def text_dangerous_section_def
          html_dangerous_section_def)
qed

subsection \<open>The cap on the functions of a library\<close>

text \<open>Both loops write one line for each function of a prefix of the sorted list, and stop
  when 20 of them had an explanation.\<close>

lemma text_api_lines_prefix:
  "printed < 20 \<Longrightarrow>
   \<exists>k. text_api_lines dll_apis printed fs = map (text_api_line dll_apis) (take k fs) \<and>
       printed + length (filter (described dll_apis) (take k fs)) \<le> 20"
proof (induction fs arbitrary: printed)
  case Nil
  then show ?case by simp
next
  case (Cons api rest)
  show ?case
  proof (cases "map_of dll_apis (lower api)")
    case None
    from Cons.IH [OF Cons.prems] obtain k where
      "text_api_lines dll_apis printed rest = map (text_api_line dll_apis) (take k rest)"
         "printed + length (filter (described dll_apis) (take k rest)) \<le> 20"
      by blast
    moreover from None have "\<not> described dll_apis api"
      by (simp add: described_def)
    ultimately show ?thesis
      using None Cons.prems by (intro exI [of _ "Suc k"]) (simp add: text_api_line_def)
  next
    case (Some expl)
    show ?thesis
    proof (cases "printed + 1 \<ge> 20")
      case True
      with Some Cons.prems show ?thesis
        by (intro exI [of _ "Suc 0"]) (simp add: text_api_line_def)
    next
      case False
      then have "printed + 1 < 20" by simp
      from Cons.IH [OF this] obtain k where
        "text_api_lines dll_apis (printed + 1) rest = map (text_api_line dll_apis) (take k rest)"
           "printed + 1 + length (filter (described dll_apis) (take k rest)) \<le> 20"
        by blast
      moreover from Some have "described dll_apis api"
        by (simp add: described_def)
      ultimately show ?thesis
        using Some False by (intro exI [of _ "Suc k"]) (simp add: text_api_line_def)
    qed
  qed
qed

lemma html_api_rows_prefix:
  "printed < 20 \<Longrightarrow>
   \<exists>k. html_api_rows dll_apis printed fs = map (html_api_row dll_apis) (take k fs) \<and>
       printed + length (filter (described dll_apis) (take k fs)) \<le> 20"
proof (induction fs arbitrary: printed)
  case Nil
  then show ?case by simp
next
  case (Cons api rest)
  show ?case
  proof (cases "map_of dll_apis (lower api)")
    case None
    from Cons.IH [OF Cons.prems] obtain k where
      "html_api_rows dll_apis printed rest = map (html_api_row dll_apis) (take k rest)"
         "printed + length (filter (described dll_apis) (take k rest)) \<le> 20"
      by blast
    moreover from None have "\<not> described dll_apis api"
      by (simp add: described_def)
    ultimately show ?thesis
      using None Cons.prems by (intro exI [of _ "Suc k"]) (simp add: html_api_row_def)
  next
    case (Some expl)
    show ?thesis
    proof (cases "printed + 1 \<ge> 20")
      case True
      with Some Cons.prems show ?thesis
        by (intro exI [of _ "Suc 0"]) (simp add: html_api_row_def)
    next
      case False
      then have "printed + 1 < 20" by simp
      from Cons.IH [OF this] obtain k where
        "html_api_rows dll_apis (printed + 1) rest = map (html_api_row dll_apis) (take k rest)"
           "printed + 1 + length (filter (described dll_apis) (take k rest)) \<le> 20"
        by blast
      moreover from Some have "described dll_apis api"
        by (simp add: described_def)
      ultimately show ?thesis
        using Some False by (intro exI [of _ "Suc k"]) (simp add: html_api_row_def)
    qed
  qed
qed


text \<open>The catalog after the module-level extension, and its entry for Winsock.\<close>

lemma explanation_extend_apis: "explanation (extend_apis info target) = explanation info"
  by (simp add: extend_apis_def Let_def)

lemma map_of_foldl_update:
  "map_of (foldl (\<lambda>a i. AList.update (f i) v a) d is) k =
     (if k \<in> f ` set is then Some v else map_of d k)"
  by (induction "is" arbitrary: d) (auto simp: update_conv')

lemma map_of_extend_apis:
  "map_of (apis (extend_apis info target)) k =
     (if k \<in> (\<lambda>i. ''placeholder_'' @ str_of_nat i) ` set [length (apis info) + 1 ..< target + 1]
      then Some DEFAULT_EXPLANATION else map_of (apis info) k)"
  by (simp add: extend_apis_def Let_def map_of_foldl_update del: set_upt)

lemma catalog_ws2_32: "map_of dll_api_explanations ''ws2_32.dll'' = Some ws2_32_info"
  by (simp add: dll_api_explanations_def dll_api_literal_def ws2_32_info_def)

lemma lower_ws2: "lower ''WS2_32.dll'' = ''ws2_32.dll''"
  by (simp add: lower_def lower_char_def)

lemma ordinal_names_sorted:
  "sort_key lower (snd (hd ordinal_table)) = snd (hd ordinal_table)"
  by (rule sort_key_id_if_sorted) (simp add: ordinal_table_def lower_def lower_char_def)

lemma ws2_32_no_ordinal:
  "map_of (apis ws2_32_info)
     (CHR ''o'' # CHR ''r'' # CHR ''d'' # CHR ''i'' # CHR ''n'' # CHR ''a'' # CHR ''l'' # CHR ''_'' # s) = None"
  unfolding ws2_32_info_def map_of_extend_apis
  by (simp add: image_iff ws2_32_dll_apis_def)

lemma ws2_32_explanation:
  "explanation ws2_32_info = ''Implements the Windows Sockets API for network communications.''"
  by (simp add: ws2_32_info_def explanation_extend_apis)

text \<open>
  Claim C1, as stated: no more than 20 functions per library. The counter \<open>printed\<close> grows only
  on a function that the catalog describes, so a library with 21 imports by ordinal gets 21
  function lines.
\<close>

theorem cap_counterexample:
  "text_lines ordinal_table dll_api_explanations [] =
     [''WS2_32.dll:'',
      ''    DLL Explanation: Implements the Windows Sockets API for network communications.'',
      ''    Ordinal_1'', ''    Ordinal_10'', ''    Ordinal_11'', ''    Ordinal_12'',
      ''    Ordinal_13'', ''    Ordinal_14'', ''    Ordinal_15'', ''    Ordinal_16'',
      ''    Ordinal_17'', ''    Ordinal_18'', ''    Ordinal_19'', ''    Ordinal_2'',
      ''    Ordinal_20'', ''    Ordinal_21'', ''    Ordinal_3'', ''    Ordinal_4'',
      ''    Ordinal_5'', ''    Ordinal_6'', ''    Ordinal_7'', ''    Ordinal_8'',
      ''    Ordinal_9'', '''']"
proof -
  have "text_dll_block dll_api_explanations (hd ordinal_table) =
          [''WS2_32.dll:'', ''    DLL Explanation: '' @ explanation ws2_32_info]
          @ text_api_lines (apis ws2_32_info) 0 (snd (hd ordinal_table)) @ ['''']"
    using ordinal_names_sorted
    by (simp add: text_dll_block_def ordinal_table_def lower_ws2 catalog_ws2_32)
  then show ?thesis
    by (simp add: text_lines_def text_dangerous_section_def ws2_32_explanation
          ordinal_table_def lower_def lower_char_def ws2_32_no_ordinal)
qed

text \<open>
  Claim C1, amended. For a library that the catalog knows, each renderer writes the heading
  lines and then one line per function of a prefix of the sorted function list; at most 20
  functions of that prefix are described by the catalog. Functions without a description
  are listed among them and do not count towards the 20.
\<close>

theorem described_functions_capped:
  assumes "map_of nested_dict (lower dll) = Some info"
  shows "(\<exists>k. text_dll_block nested_dict (dll, fs) =
              [dll @ '':'', ''    DLL Explanation: '' @ explanation info]
              @ map (text_api_line (apis info)) (take k (sort_key lower fs)) @ ['''']
            \<and> length (filter (described (apis info)) (take k (sort_key lower fs))) \<le> 20) \<and>
         (\<exists>k. html_dll_block nested_dict (dll, fs) =
              [''<h2>'' @ html_escape dll @ ''</h2>'',
               ''<p><strong>DLL Explanation:</strong> '' @ html_escape (explanation info) @ ''</p>'',
               ''<table>'',
               ''<tr><th>API Function</th><th>Explanation</th></tr>'']
              @ map (html_api_row (apis info)) (take k (sort_key lower fs)) @ [''</table>'']
            \<and> length (filter (described (apis info)) (take k (sort_key lower fs))) \<le> 20)"
proof -
  from text_api_lines_prefix [of 0 "apis info" "sort_key lower fs"]
  have "\<exists>k. text_api_lines (apis info) 0 (sort_key lower fs)
              = map (text_api_line (apis info)) (take k (sort_key lower fs))
            \<and> length (filter (described (apis info)) (take k (sort_key lower fs))) \<le> 20"
    by simp
  moreover from html_api_rows_prefix [of 0 "apis info" "sort_key lower fs"]
  have "\<exists>k. html_api_rows (apis info) 0 (sort_key lower fs)
              = map (html_api_row (apis info)) (take k (sort_key lower fs))
            \<and> length (filter (described (apis info)) (take k (sort_key lower fs))) \<le> 20"
    by simp
  ultimately show ?thesis
    using assms by (simp add: text_dll_block_def html_dll_block_def)
qed

theorem described_functions_capped_witness:
  "map_of dll_api_explanations (lower ''WS2_32.dll'') = Some ws2_32_info \<and>
   (\<exists>k. text_dll_block dll_api_explanations (''WS2_32.dll'', [''WSAStartup'', ''Ordinal_115'']) =
          [''WS2_32.dll:'', ''    DLL Explanation: '' @ explanation ws2_32_info]
          @ map (text_api_line (apis ws2_32_info)) (take k [''Ordinal_115'', ''WSAStartup'']) @ [''''])"
proof -
  have known: "map_of dll_api_explanations (lower ''WS2_32.dll'') = Some ws2_32_info"
    by (simp add: lower_ws2 catalog_ws2_32)
  have "sort_key lower [''WSAStartup'', ''Ordinal_115''] = [''Ordinal_115'', ''WSAStartup'']"
    by (simp add: lower_def lower_char_def)
  with described_functions_capped [OF known, of "[''WSAStartup'', ''Ordinal_115'']"] known
  show ?thesis
    by auto
qed

subsection \<open>Escaping in the HTML report\<close>

lemma escape_char_plain: "CHR ''<'' \<notin> set (html_escape_char c) \<and> CHR ''>'' \<notin> set (html_escape_char c)"
  by (simp add: html_escape_char_def)

lemma escape_plain: "CHR ''<'' \<notin> set (html_escape s) \<and> CHR ''>'' \<notin> set (html_escape s)"
  by (induction s) (simp_all add: html_escape_def escape_char_plain)

lemma markup_plain:
  "CHR ''<'' \<notin> set s \<Longrightarrow> CHR ''>'' \<notin> set s \<Longrightarrow> markup False (s @ t) = markup False t"
  by (induction s) auto

lemma markup_escape: "markup False (html_escape s @ t) = markup False t"
  using escape_plain [of s] by (simp add: markup_plain)

lemma markup_escape_end: "markup False (html_escape s) = []"
  using markup_escape [of s "[]"] by simp

lemma markup_row:
  "markup False (html_row (html_escape a) (html_escape b)) = ''<tr><td></td><td></td></tr>''"
  "markup False (html_row (html_escape a) []) = ''<tr><td></td><td></td></tr>''"
  by (simp_all add: html_row_def markup_escape)

lemma markup_api_rows:
  "l \<in> set (html_api_rows dll_apis printed fs) \<Longrightarrow> markup False l = ''<tr><td></td><td></td></tr>''"
  by (induction dll_apis printed fs rule: html_api_rows.induct)
     (auto simp: markup_row split: option.splits if_splits)

lemma markup_dll_block:
  "l \<in> set (html_dll_block nested_dict item) \<Longrightarrow> markup False l \<in> set html_skeletons"
  by (cases item)
     (auto simp: html_dll_block_def markup_escape markup_api_rows html_skeletons_def
           split: option.splits)

lemma markup_dangerous:
  "l \<in> set (html_dangerous_section nested_dict dangerous_set) \<Longrightarrow> markup False l \<in> set html_skeletons"
  by (auto simp: html_dangerous_section_def html_dangerous_row_def markup_row html_skeletons_def
           split: option.splits if_splits)

lemma markup_head: "l \<in> set html_head \<Longrightarrow> markup False l \<in> set html_skeletons"
  by (auto simp: html_head_def html_skeletons_def)

lemma escape_char_ampersands:
  "ampersands_escaped r \<Longrightarrow> ampersands_escaped (html_escape_char c @ r)"
  by (simp add: html_escape_char_def entity_at_def)

lemma escape_ampersands_append:
  "ampersands_escaped r \<Longrightarrow> ampersands_escaped (html_escape s @ r)"
  by (induction s) (simp_all add: html_escape_def escape_char_ampersands)

lemma ampersands_row:
  "ampersands_escaped (html_row (html_escape a) (html_escape b))"
  "ampersands_escaped (html_row (html_escape a) [])"
  by (simp_all add: html_row_def escape_ampersands_append)

lemma ampersands_api_rows:
  "l \<in> set (html_api_rows dll_apis printed fs) \<Longrightarrow> ampersands_escaped l"
  by (induction dll_apis printed fs rule: html_api_rows.induct)
     (auto simp: ampersands_row split: option.splits if_splits)

lemma ampersands_dll_block:
  "l \<in> set (html_dll_block nested_dict item) \<Longrightarrow> ampersands_escaped l"
  by (cases item)
     (auto simp: html_dll_block_def escape_ampersands_append ampersands_api_rows
           split: option.splits)

lemma ampersands_dangerous:
  "l \<in> set (html_dangerous_section nested_dict dangerous_set) \<Longrightarrow> ampersands_escaped l"
  by (auto simp: html_dangerous_section_def html_dangerous_row_def ampersands_row
           split: option.splits if_splits)

lemma ampersands_head: "l \<in> set html_head \<Longrightarrow> ampersands_escaped l"
  by (auto simp: html_head_def)

text \<open>
  Claim C10. The library names, function names and explanations reach the HTML document only
  through \<^verbatim>\<open>html.escape\<close>, whose result has no angle bracket and no ampersand other than the
  first character of an entity. So whatever the names are, every line of the document has
  the markup of the renderer's own template and nothing else, and every ampersand in it
  starts an entity.
\<close>

theorem html_names_add_no_markup:
  "(\<forall>l \<in> set (html_lines sorted_imports nested_dict dangerous_set).
      markup False l \<in> set html_skeletons \<and> ampersands_escaped l) \<and>
   CHR ''<'' \<notin> set (html_escape s) \<and> CHR ''>'' \<notin> set (html_escape s) \<and>
   ampersands_escaped (html_escape s)"
proof -
  have "markup False ''</body></html>'' \<in> set html_skeletons"
    by (simp add: html_skeletons_def)
  moreover have "ampersands_escaped (html_escape s)"
    using escape_ampersands_append [of "[]" s] by simp
  ultimately show ?thesis
    by (auto simp: html_lines_def markup_head markup_dll_block markup_dangerous escape_plain
          ampersands_head ampersands_dll_block ampersands_dangerous)
qed

theorem html_names_add_no_markup_witness:
  "''<tr><td>&lt;b&gt;&amp;</td><td></td></tr>''
     \<in> set (html_lines hostile_table dll_api_explanations []) \<and>
   markup False ''<tr><td>&lt;b&gt;&amp;</td><td></td></tr>'' \<in> set html_skeletons \<and>
   ampersands_escaped ''<tr><td>&lt;b&gt;&amp;</td><td></td></tr>''"
proof -
  have "map_of (apis ws2_32_info) ''<b>&'' = None"
    unfolding ws2_32_info_def map_of_extend_apis
    by (simp add: image_iff ws2_32_dll_apis_def)
  then have "html_dll_block dll_api_explanations (''WS2_32.dll'', [''<b>&'']) =
     [''<h2>WS2_32.dll</h2>'',
      ''<p><strong>DLL Explanation:</strong> Implements the Windows Sockets API for network communications.</p>'',
      ''<table>'',
      ''<tr><th>API Function</th><th>Explanation</th></tr>'',
      ''<tr><td>&lt;b&gt;&amp;</td><td></td></tr>'',
      ''</table>'']"
    by (simp add: html_dll_block_def lower_ws2 catalog_ws2_32 ws2_32_explanation lower_def
          lower_char_def html_row_def html_escape_def html_escape_char_def)
  then have row: "''<tr><td>&lt;b&gt;&amp;</td><td></td></tr>''
                    \<in> set (html_lines hostile_table dll_api_explanations [])"
    by (simp add: html_lines_def hostile_table_def)
  with html_names_add_no_markup [of hostile_table dll_api_explanations "[]" "[]"]
  show ?thesis by blast
qed

subsection \<open>The section of dangerous functions\<close>






section \<open>Properties of the command line\<close>

lemma main_on_error:
  "extract_and_sort_imports (lief_parse e) file_path = Inl err \<Longrightarrow>
   main e file_path stdin = [Print (''Error: '' @ exn_message err)]"
  by (simp add: main_def main_try_def)

lemma main_no_answer:
  "extract_and_sort_imports (lief_parse e) file_path = Inr tbl \<Longrightarrow>
   filter is_file_event (main e file_path []) = []"
  by (simp add: main_def main_try_def Let_def is_file_event_def)

lemma main_one_answer:
  "extract_and_sort_imports (lief_parse e) file_path = Inr tbl \<Longrightarrow>
   filter is_file_event (main e file_path [a1]) = []"
  by (simp add: main_def main_try_def Let_def is_file_event_def)

lemma main_two_answers:
  "extract_and_sort_imports (lief_parse e) file_path = Inr tbl \<Longrightarrow>
   filter is_file_event (main e file_path [a1, a2]) = []"
  by (simp add: main_def main_try_def Let_def is_file_event_def)

lemma main_three_answers:
  "extract_and_sort_imports (lief_parse e) file_path = Inr tbl \<Longrightarrow>
   filter is_file_event (main e file_path (a1 # a2 # a3 # more_lines)) = [] \<or>
   (\<exists>p1 p2 p3 f. take 4 (main e file_path (a1 # a2 # a3 # more_lines))
      = [Prompt p1, Prompt p2, Prompt p3, Open_w f])"
  by (cases "open_error e (if strip a3 \<noteq> [] then strip a3
                else base_name e file_path @ (if is_yes a2 then ''.html'' else ''.txt''))")
     (simp_all add: main_def main_try_def Let_def is_file_event_def)

lemma main_file_events:
  assumes "filter is_file_event (main e file_path stdin) \<noteq> []"
  shows "(\<exists>tbl. extract_and_sort_imports (lief_parse e) file_path = Inr tbl) \<and>
         3 \<le> length stdin \<and>
         (\<exists>p1 p2 p3 f. take 4 (main e file_path stdin) = [Prompt p1, Prompt p2, Prompt p3, Open_w f])"
proof (cases "extract_and_sort_imports (lief_parse e) file_path")
  case (Inl err)
  with assms show ?thesis by (simp add: main_on_error is_file_event_def)
next
  case (Inr tbl)
  consider "stdin = []" | a1 where "stdin = [a1]" | a1 a2 where "stdin = [a1, a2]"
    | a1 a2 a3 more_lines where "stdin = a1 # a2 # a3 # more_lines"
    by (metis list.exhaust)
  then show ?thesis
  proof cases
    case 1
    with assms main_no_answer [OF Inr] show ?thesis by simp
  next
    case 2
    with assms main_one_answer [OF Inr] show ?thesis by simp
  next
    case 3
    with assms main_two_answers [OF Inr] show ?thesis by simp
  next
    case 4
    with assms main_three_answers [OF Inr, of a1 a2 a3 more_lines] Inr show ?thesis by auto
  qed
qed

lemma main_writes_report:
  assumes "extract_and_sort_imports (lief_parse e) file_path = Inr tbl"
    and "file_name = (if strip a3 \<noteq> [] then strip a3
                      else base_name e file_path @ (if is_yes a2 then ''.html'' else ''.txt''))"
    and "open_error e file_name = None"
    and "dangerous_set = (if is_yes a1 then find_dangerous tbl else [])"
  shows "Write file_name
           (if is_yes a2 then generate_html_output tbl dll_api_explanations dangerous_set
            else generate_text_output tbl dll_api_explanations dangerous_set)
         \<in> set (main e file_path (a1 # a2 # a3 # more_lines))"
  using assms by (simp add: main_def main_try_def Let_def del: join_lines.simps)

subsection \<open>Exit status after a parse failure\<close>

text \<open>
  Claim C3, as stated: on a parse failure the process ends with a non-zero status. The handler
  of \<^verbatim>\<open>main\<close> prints the error and returns, and nothing in the script calls \<^verbatim>\<open>sys.exit\<close>:
  for a file that LIEF cannot parse the run prints one line and ends with status 0.
\<close>

theorem parse_failure_exit_counterexample:
  "run_script (plain_env NoBinary) ''notes.txt'' [] = ([Print ''Error: Not a valid PE file.''], 0)"
  by (simp add: run_script_def main_def main_try_def plain_env_def lief_of_def
        extract_and_sort_imports_def exn_message_def)

text \<open>
  Claim C3, amended. When the extractor fails, the run prints the line "Error: " followed by
  the message of the exception, does nothing else, and ends with status 0.
\<close>

theorem parse_failure_reported:
  assumes "extract_and_sort_imports (lief_parse e) file_path = Inl err"
  shows "run_script e file_path stdin = ([Print (''Error: '' @ exn_message err)], 0)"
  using assms by (simp add: run_script_def main_on_error)

theorem parse_failure_reported_witness:
  "extract_and_sort_imports (lief_parse (plain_env OtherFormat)) ''a.out''
     = Inl (ValueError ''Not a valid PE file.'') \<and>
   run_script (plain_env OtherFormat) ''a.out'' [''y'', ''n'', '''']
     = ([Print ''Error: Not a valid PE file.''], 0)"
proof -
  have failed: "extract_and_sort_imports (lief_parse (plain_env OtherFormat)) ''a.out''
                  = Inl (ValueError ''Not a valid PE file.'')"
    by (simp add: plain_env_def lief_of_def extract_and_sort_imports_def)
  from parse_failure_reported [OF failed, of "[''y'', ''n'', '''']"] failed
  show ?thesis by (simp add: exn_message_def)
qed

subsection \<open>No output file after a parse failure\<close>

text \<open>
  Claim C9. When the extractor fails, the run neither opens nor writes a file. Whenever a run
  opens or writes a file, the extractor has returned a table, the user has answered all
  three prompts, and the first four events are the three prompts and the opening of the
  file, in this order.
\<close>

theorem no_output_file_on_failure:
  "(extract_and_sort_imports (lief_parse e) file_path = Inl err \<longrightarrow>
      filter is_file_event (main e file_path stdin) = []) \<and>
   (filter is_file_event (main e file_path stdin) \<noteq> [] \<longrightarrow>
      (\<exists>tbl. extract_and_sort_imports (lief_parse e) file_path = Inr tbl) \<and>
      3 \<le> length stdin \<and>
      (\<exists>p1 p2 p3 f. take 4 (main e file_path stdin) = [Prompt p1, Prompt p2, Prompt p3, Open_w f]))"
  using main_file_events [of e file_path stdin]
  by (auto simp: main_on_error is_file_event_def)

theorem no_output_file_on_failure_witness:
  "extract_and_sort_imports (lief_parse (plain_env NoBinary)) ''notes.txt''
     = Inl (ValueError ''Not a valid PE file.'') \<and>
   filter is_file_event (main (plain_env NoBinary) ''notes.txt'' [''y'', ''n'', '''']) = [] \<and>
   filter is_file_event
     (main (plain_env (PE_Binary sample_imports)) ''a.exe'' [''n'', ''n'', ''out.txt'']) \<noteq> [] \<and>
   extract_and_sort_imports (lief_parse (plain_env (PE_Binary sample_imports))) ''a.exe''
     = Inr [(''WS2_32.dll'', [''Ordinal_115'', ''WSAStartup''])] \<and>
   (\<exists>p1 p2 p3 f.
      take 4 (main (plain_env (PE_Binary sample_imports)) ''a.exe'' [''n'', ''n'', ''out.txt''])
        = [Prompt p1, Prompt p2, Prompt p3, Open_w f])"
proof -
  have failed: "extract_and_sort_imports (lief_parse (plain_env NoBinary)) ''notes.txt''
                  = Inl (ValueError ''Not a valid PE file.'')"
    by (simp add: plain_env_def lief_of_def extract_and_sort_imports_def)
  have table: "extract_and_sort_imports (lief_parse (plain_env (PE_Binary sample_imports))) ''a.exe''
                 = Inr [(''WS2_32.dll'', [''Ordinal_115'', ''WSAStartup''])]"
    by (simp add: plain_env_def extractor_eval sample_imports_def)
  have name: "strip ''out.txt'' = ''out.txt''"
    by (simp add: strip_def is_space_def)
  have opens: "open_error (plain_env (PE_Binary sample_imports)) ''out.txt'' = None"
    by (simp add: plain_env_def)
  have written: "filter is_file_event
      (main (plain_env (PE_Binary sample_imports)) ''a.exe'' [''n'', ''n'', ''out.txt'']) \<noteq> []"
    using table name opens
    by (simp add: main_def main_try_def Let_def is_file_event_def del: join_lines.simps)
  from no_output_file_on_failure
         [of "plain_env NoBinary" "''notes.txt''" "ValueError ''Not a valid PE file.''"
             "[''y'', ''n'', '''']"]
       no_output_file_on_failure
         [of "plain_env (PE_Binary sample_imports)" "''a.exe''" "ValueError []"
             "[''n'', ''n'', ''out.txt'']"]
       failed table written
  show ?thesis by simp
qed

end
